theory Spec2Isabelle
  imports Main "HOL-Library.Word" "HOL-Library.AList" "HOL-Library.Char_ord" "HOL-Library.List_Lexorder"
begin

section \<open>Code-space translator (errors.go, ToGRPCCode and ToHTTPCode)\<close>

text \<open>
  The RPC status codes are \<open>codes.Code\<close>, a \<open>uint32\<close>, with the numbering of
  google.golang.org/grpc/codes. The web codes are Go \<open>int\<close>s; both functions only
  compare their argument with constants, so the web side is an \<open>int\<close>.
\<close>

type_synonym grpc_code = "32 word"

definition codes_OK :: grpc_code where "codes_OK = 0"
definition codes_Canceled :: grpc_code where "codes_Canceled = 1"
definition codes_Unknown :: grpc_code where "codes_Unknown = 2"
definition codes_InvalidArgument :: grpc_code where "codes_InvalidArgument = 3"
definition codes_DeadlineExceeded :: grpc_code where "codes_DeadlineExceeded = 4"
definition codes_NotFound :: grpc_code where "codes_NotFound = 5"
definition codes_AlreadyExists :: grpc_code where "codes_AlreadyExists = 6"
definition codes_PermissionDenied :: grpc_code where "codes_PermissionDenied = 7"
definition codes_ResourceExhausted :: grpc_code where "codes_ResourceExhausted = 8"
definition codes_FailedPrecondition :: grpc_code where "codes_FailedPrecondition = 9"
definition codes_Aborted :: grpc_code where "codes_Aborted = 10"
definition codes_OutOfRange :: grpc_code where "codes_OutOfRange = 11"
definition codes_Unimplemented :: grpc_code where "codes_Unimplemented = 12"
definition codes_Internal :: grpc_code where "codes_Internal = 13"
definition codes_Unavailable :: grpc_code where "codes_Unavailable = 14"
definition codes_DataLoss :: grpc_code where "codes_DataLoss = 15"
definition codes_Unauthenticated :: grpc_code where "codes_Unauthenticated = 16"

text \<open>The constants of net/http that the two switches name.\<close>

definition StatusOK :: int where "StatusOK = 200"
definition StatusBadRequest :: int where "StatusBadRequest = 400"
definition StatusUnauthorized :: int where "StatusUnauthorized = 401"
definition StatusForbidden :: int where "StatusForbidden = 403"
definition StatusNotFound :: int where "StatusNotFound = 404"
definition StatusConflict :: int where "StatusConflict = 409"
definition StatusTooManyRequests :: int where "StatusTooManyRequests = 429"
definition StatusInternalServerError :: int where "StatusInternalServerError = 500"
definition StatusNotImplemented :: int where "StatusNotImplemented = 501"
definition StatusServiceUnavailable :: int where "StatusServiceUnavailable = 503"
definition StatusGatewayTimeout :: int where "StatusGatewayTimeout = 504"

text \<open>\<open>ToGRPCCode\<close>: the switch, case by case, and the default after it.\<close>

definition ToGRPCCode :: "int \<Rightarrow> grpc_code" where
  "ToGRPCCode code =
     (if code = StatusOK then codes_OK
      else if code = StatusBadRequest then codes_InvalidArgument
      else if code = StatusUnauthorized then codes_Unauthenticated
      else if code = StatusForbidden then codes_PermissionDenied
      else if code = StatusNotFound then codes_NotFound
      else if code = StatusConflict then codes_Aborted
      else if code = StatusTooManyRequests then codes_ResourceExhausted
      else if code = StatusInternalServerError then codes_Internal
      else if code = StatusNotImplemented then codes_Unimplemented
      else if code = StatusServiceUnavailable then codes_Unavailable
      else if code = StatusGatewayTimeout then codes_DeadlineExceeded
      else codes_Unknown)"

text \<open>\<open>ToHTTPCode\<close>: the switch, case by case, and the default after it.\<close>

definition ToHTTPCode :: "grpc_code \<Rightarrow> int" where
  "ToHTTPCode code =
     (if code = codes_OK then StatusOK
      else if code = codes_Canceled then 499
      else if code = codes_Unknown then StatusInternalServerError
      else if code = codes_InvalidArgument then StatusBadRequest
      else if code = codes_DeadlineExceeded then StatusGatewayTimeout
      else if code = codes_NotFound then StatusNotFound
      else if code = codes_AlreadyExists then StatusConflict
      else if code = codes_PermissionDenied then StatusForbidden
      else if code = codes_Unauthenticated then StatusUnauthorized
      else if code = codes_ResourceExhausted then StatusTooManyRequests
      else if code = codes_FailedPrecondition then StatusBadRequest
      else if code = codes_Aborted then StatusConflict
      else if code = codes_OutOfRange then StatusBadRequest
      else if code = codes_Unimplemented then StatusNotImplemented
      else if code = codes_Internal then StatusInternalServerError
      else if code = codes_Unavailable then StatusServiceUnavailable
      else if code = codes_DataLoss then StatusInternalServerError
      else StatusInternalServerError)"

text \<open>The codes that have a case of their own in each switch.\<close>

definition http_table :: "int list" where
  "http_table =
     [StatusOK, StatusBadRequest, StatusUnauthorized, StatusForbidden, StatusNotFound,
      StatusConflict, StatusTooManyRequests, StatusInternalServerError, StatusNotImplemented,
      StatusServiceUnavailable, StatusGatewayTimeout]"

definition grpc_table :: "grpc_code list" where
  "grpc_table =
     [codes_OK, codes_Canceled, codes_Unknown, codes_InvalidArgument, codes_DeadlineExceeded,
      codes_NotFound, codes_AlreadyExists, codes_PermissionDenied, codes_Unauthenticated,
      codes_ResourceExhausted, codes_FailedPrecondition, codes_Aborted, codes_OutOfRange,
      codes_Unimplemented, codes_Internal, codes_Unavailable, codes_DataLoss]"

section \<open>Library functions the identifier codec calls\<close>

text \<open>
  Go strings are byte sequences, as \<open>string\<close> is here. The functions of this section
  are those of the Go standard library that errors.go calls (strings, strconv,
  path/filepath, fmt, encoding/base64), written out for the arguments errors.go gives them.
\<close>

subsection \<open>strings\<close>

text \<open>\<open>strings.Split(s, sep)\<close> for a one-byte separator: never an empty list.\<close>

fun Split :: "string \<Rightarrow> char \<Rightarrow> string list" where
  "Split [] sep = [[]]"
| "Split (c # cs) sep =
     (if c = sep then [] # Split cs sep
      else (case Split cs sep of p # ps \<Rightarrow> (c # p) # ps | [] \<Rightarrow> [[c]]))"

text \<open>\<open>strings.LastIndex(s, sep)\<close> for a one-byte separator: scans from the end, -1 when absent.\<close>

definition LastIndex :: "string \<Rightarrow> char \<Rightarrow> int" where
  "LastIndex s sep =
     (if sep \<in> set s then int (length s) - 1 - int (length (takeWhile (\<lambda>x. x \<noteq> sep) (rev s)))
      else - 1)"

definition findLastDot :: "string \<Rightarrow> int" where
  "findLastDot s = LastIndex s CHR ''.''"

text \<open>\<open>filepath.Base\<close> with the separator \<open>/\<close>.\<close>

definition filepath_Base :: "string \<Rightarrow> string" where
  "filepath_Base path =
     (if path = [] then ''.''
      else let stripped = rev (dropWhile (\<lambda>c. c = CHR ''/'') (rev path));
               i = LastIndex stripped CHR ''/'';
               last_elem = (if i \<ge> 0 then drop (nat (i + 1)) stripped else stripped)
           in if last_elem = [] then ''/'' else last_elem)"

subsection \<open>strconv\<close>

text \<open>A decimal digit: a byte from \<open>'0'\<close> (48) to \<open>'9'\<close> (57).\<close>

definition is_digit :: "char \<Rightarrow> bool" where
  "is_digit c \<longleftrightarrow> 48 \<le> (of_char c :: int) \<and> (of_char c :: int) \<le> 57"

definition digit_val :: "char \<Rightarrow> int" where
  "digit_val c = of_char c - 48"

text \<open>The value of a non-empty string of decimal digits; \<open>None\<close> is the syntax error.\<close>

definition digits_value :: "string \<Rightarrow> int option" where
  "digits_value s =
     (if s = [] \<or> \<not> list_all is_digit s then None
      else Some (foldl (\<lambda>a c. a * 10 + digit_val c) 0 s))"

text \<open>\<open>strconv.ParseUint(s, 10, 64)\<close>; \<open>None\<close> is either error (syntax or range).\<close>

definition ParseUint :: "string \<Rightarrow> int option" where
  "ParseUint s =
     (case digits_value s of
        None \<Rightarrow> None
      | Some un \<Rightarrow> if un < 2 ^ 64 then Some un else None)"

text \<open>\<open>strconv.ParseInt(s, 10, 64)\<close>: an optional sign, then the digits, then the range check.\<close>

definition parse_signed :: "bool \<Rightarrow> string \<Rightarrow> int option" where
  "parse_signed neg s =
     (case digits_value s of
        None \<Rightarrow> None
      | Some un \<Rightarrow>
          if \<not> neg \<and> un \<ge> 2 ^ 63 then None
          else if neg \<and> un > 2 ^ 63 then None
          else Some (if neg then - un else un))"

fun ParseInt :: "string \<Rightarrow> int option" where
  "ParseInt [] = None"
| "ParseInt (c # cs) =
     (if c = CHR ''+'' then parse_signed False cs
      else if c = CHR ''-'' then parse_signed True cs
      else parse_signed False (c # cs))"

text \<open>\<open>strconv.Atoi\<close> on a 64-bit platform: the results of \<open>ParseInt(s, 10, 0)\<close>.\<close>

definition Atoi :: "string \<Rightarrow> int option" where
  "Atoi s = ParseInt s"

definition digit_char :: "int \<Rightarrow> char" where
  "digit_char d = char_of (48 + d)"

text \<open>The decimal digits of a non-negative integer, the most significant first.\<close>

function format_digits :: "int \<Rightarrow> string" where
  "format_digits n =
     (if n < 10 then [digit_char n] else format_digits (n div 10) @ [digit_char (n mod 10)])"
  by pat_completeness auto
termination
  by (relation "measure nat") auto

declare format_digits.simps [simp del]

text \<open>\<open>strconv.FormatInt(i, 10)\<close>, also \<open>strconv.Itoa\<close>, \<open>strconv.FormatUint(u, 10)\<close> and the verb \<open>%d\<close>.\<close>

definition FormatInt :: "int \<Rightarrow> string" where
  "FormatInt i = (if i < 0 then CHR ''-'' # format_digits (- i) else format_digits i)"

definition Itoa :: "int \<Rightarrow> string" where
  "Itoa i = FormatInt i"

subsection \<open>fmt, the verb \<open>%x\<close>\<close>

definition hex_digit :: "int \<Rightarrow> char" where
  "hex_digit d = ''0123456789abcdef'' ! nat (d mod 16)"

text \<open>\<open>%x\<close> of a byte slice: two digits a byte.\<close>

definition hex_bytes :: "string \<Rightarrow> string" where
  "hex_bytes bs = concat (map (\<lambda>b. [hex_digit (of_char b div 16), hex_digit (of_char b)]) bs)"

text \<open>\<open>%x\<close> of a non-negative integer: no padding.\<close>

function hex_digits :: "int \<Rightarrow> string" where
  "hex_digits n =
     (if n < 16 then [hex_digit n] else hex_digits (n div 16) @ [hex_digit (n mod 16)])"
  by pat_completeness auto
termination
  by (relation "measure nat") auto

declare hex_digits.simps [simp del]

subsection \<open>encoding/base64, \<open>StdEncoding\<close>\<close>

definition encodeStd :: string where
  "encodeStd = ''ABCDEFGHIJKLMNOPQRSTUVWXYZabcdefghijklmnopqrstuvwxyz0123456789+/''"

text \<open>\<open>enc.encode[v & 0x3F]\<close>.\<close>

definition enc6 :: "int \<Rightarrow> char" where
  "enc6 v = encodeStd ! nat (v mod 64)"

text \<open>\<open>EncodeToString\<close>: three bytes make four characters; the remainder is padded with \<open>=\<close>.\<close>

fun EncodeToString :: "string \<Rightarrow> string" where
  "EncodeToString (a # b # c # rest) =
     (let val = of_char a * 65536 + of_char b * 256 + of_char c :: int
      in enc6 (val div 262144) # enc6 (val div 4096) # enc6 (val div 64) # enc6 val
           # EncodeToString rest)"
| "EncodeToString [a, b] =
     (let val = of_char a * 65536 + of_char b * 256 :: int
      in [enc6 (val div 262144), enc6 (val div 4096), enc6 (val div 64), CHR ''=''])"
| "EncodeToString [a] =
     (let val = of_char a * 65536 :: int
      in [enc6 (val div 262144), enc6 (val div 4096), CHR ''='', CHR ''=''])"
| "EncodeToString [] = []"

text \<open>The decode table: the position in the alphabet, \<open>None\<close> for the 0xff entries.\<close>

definition decodeMap :: "char \<Rightarrow> int option" where
  "decodeMap c =
     (if c \<in> set encodeStd then Some (int (length (takeWhile (\<lambda>x. x \<noteq> c) encodeStd)))
      else None)"

definition is_newline :: "char \<Rightarrow> bool" where
  "is_newline c \<longleftrightarrow> c = CHR 0x0A \<or> c = CHR 0x0D"

text \<open>
  The bytes of one quantum: \<open>dbuf\<close> holds the 6-bit values read (2, 3 or 4 of them),
  the missing ones count as 0, and \<open>length dbuf - 1\<close> bytes come out.
\<close>

definition quantum_bytes :: "int list \<Rightarrow> string" where
  "quantum_bytes dbuf =
     (let d = dbuf @ replicate (4 - length dbuf) 0;
          val = d ! 0 * 262144 + d ! 1 * 4096 + d ! 2 * 64 + d ! 3
      in take (length dbuf - 1) [char_of (val div 65536), char_of (val div 256), char_of val])"

text \<open>
  \<open>Decode\<close>, quantum after quantum (\<open>decodeQuantum\<close>): \<open>dbuf\<close> is the part of the
  current quantum already read. Line breaks are skipped; \<open>=\<close> is accepted only as the
  third and fourth, or the fourth, character of the last quantum, and only line breaks
  may follow it; an input that ends inside a quantum is corrupt. \<open>None\<close> is
  \<open>CorruptInputError\<close>.
\<close>

fun decode_from :: "int list \<Rightarrow> string \<Rightarrow> string option" where
  "decode_from dbuf [] = (if dbuf = [] then Some [] else None)"
| "decode_from dbuf (c # src) =
     (case decodeMap c of
        Some out \<Rightarrow>
          (if length dbuf = 3
           then map_option (\<lambda>r. quantum_bytes (dbuf @ [out]) @ r) (decode_from [] src)
           else decode_from (dbuf @ [out]) src)
      | None \<Rightarrow>
          if is_newline c then decode_from dbuf src
          else if c \<noteq> CHR ''='' then None
          else if length dbuf < 2 then None
          else if length dbuf = 2 then
            (case dropWhile is_newline src of
               [] \<Rightarrow> None
             | p # r \<Rightarrow>
                 if p \<noteq> CHR ''='' then None
                 else if dropWhile is_newline r \<noteq> [] then None
                 else Some (quantum_bytes dbuf))
          else if dropWhile is_newline src \<noteq> [] then None
          else Some (quantum_bytes dbuf))"

definition DecodeString :: "string \<Rightarrow> string option" where
  "DecodeString s = decode_from [] s"

section \<open>Identifier codec (errors.go)\<close>

subsection \<open>What the Go runtime reports to one generation\<close>

text \<open>
  A stack frame as \<open>runtime.Caller\<close> and \<open>runtime.FuncForPC\<close> report it: the file, the
  line, and the function's full name (\<open>None\<close> when \<open>FuncForPC\<close> returns nil).
\<close>

record frame =
  fr_file :: string
  fr_line :: int
  fr_func :: "string option"

text \<open>
  Everything one call of \<open>generateErrorID\<close> reads from its environment. \<open>rt_stack\<close> is
  the call stack seen from \<open>generateErrorIDInternal\<close> (frame 0 is that function itself);
  \<open>runtime.Caller(skip)\<close> is not ok beyond its end. \<open>rt_stacktext\<close> is what
  \<open>runtime.Stack\<close> writes (\<open>None\<close>: the probe panics). \<open>rt_rand\<close> is the result of
  \<open>rand.Read\<close> in \<open>generateRandomSuffix\<close> (\<open>None\<close>: an error or a panic).
  \<open>rt_probe_panics\<close> says that a probe inside \<open>generateErrorIDInternal\<close> panics, which
  \<open>tryGenerateErrorID\<close> recovers. The clock is read once in each of the three functions
  that read it.
\<close>

record runtime =
  rt_stack :: "frame list"
  rt_now :: int
  rt_stacktext :: "string option"
  rt_pid :: int
  rt_rand :: "string option"
  rt_now_suffix :: int
  rt_probe_panics :: bool
  rt_now_fallback :: int
  rt_rand_fallback :: "char \<times> char \<times> char \<times> char"

subsection \<open>Generation\<close>

text \<open>\<open>getGoroutineID\<close>: the digits after \<open>goroutine \<close> in at most 32 bytes of stack trace.\<close>

definition getGoroutineID :: "string option \<Rightarrow> int" where
  "getGoroutineID st =
     (case st of
        None \<Rightarrow> 0
      | Some text \<Rightarrow>
          let stack = take 32 text; start = 10
          in if start \<ge> length stack then 0
             else let tok = takeWhile (\<lambda>c. c \<noteq> CHR '' '') (drop start stack)
                  in if tok \<noteq> []
                     then (case ParseUint tok of Some gid \<Rightarrow> gid | None \<Rightarrow> 0)
                     else 0)"

text \<open>\<open>generateRandomSuffix\<close>: four random bytes in hex, or the low 32 bits of the clock.\<close>

definition generateRandomSuffix :: "runtime \<Rightarrow> string" where
  "generateRandomSuffix rt =
     (case rt_rand rt of
        None \<Rightarrow> hex_digits (rt_now_suffix rt mod 2 ^ 32)
      | Some buf \<Rightarrow> hex_bytes buf)"

text \<open>The function name of a frame: the part after the last dot of the full name.\<close>

definition short_func_name :: "string option \<Rightarrow> string" where
  "short_func_name fn =
     (case fn of
        None \<Rightarrow> ''unknown''
      | Some fullName \<Rightarrow>
          let lastDot = findLastDot fullName
          in if lastDot \<ge> 0 \<and> lastDot < int (length fullName) - 1
             then drop (nat (lastDot + 1)) fullName
             else if lastDot = int (length fullName) - 1 then fullName
             else fullName)"

text \<open>The three values taken from \<open>runtime.Caller(skip)\<close>: function name, file name, line.\<close>

definition caller_site :: "nat \<Rightarrow> runtime \<Rightarrow> string \<times> string \<times> int" where
  "caller_site skip rt =
     (if skip < length (rt_stack rt)
      then let f = rt_stack rt ! skip
           in (short_func_name (fr_func f), filepath_Base (fr_file f), fr_line f)
      else (''unknown'', ''unknown'', 0))"

text \<open>The record before encoding: \<open>func@file:line:timestamp:gid:pid:random\<close>.\<close>

definition id_record :: "nat \<Rightarrow> runtime \<Rightarrow> string" where
  "id_record skip rt =
     (case caller_site skip rt of (funcName, filename, line) \<Rightarrow>
        funcName @ ''@'' @ filename @ '':'' @ Itoa line @ '':'' @ FormatInt (rt_now rt)
          @ '':'' @ FormatInt (getGoroutineID (rt_stacktext rt)) @ '':'' @ Itoa (rt_pid rt)
          @ '':'' @ generateRandomSuffix rt)"

text \<open>\<open>generateErrorIDInternal\<close>; \<open>None\<close> is a panic.\<close>

definition generateErrorIDInternal :: "nat \<Rightarrow> runtime \<Rightarrow> string option" where
  "generateErrorIDInternal skip rt =
     (if rt_probe_panics rt then None else Some (EncodeToString (id_record skip rt)))"

text \<open>\<open>tryGenerateErrorID\<close>: the deferred recover turns a panic into the empty string.\<close>

definition tryGenerateErrorID :: "nat \<Rightarrow> runtime \<Rightarrow> string" where
  "tryGenerateErrorID skip rt =
     (case generateErrorIDInternal skip rt of None \<Rightarrow> [] | Some ident \<Rightarrow> ident)"

text \<open>The record of the fallback: \<open>fallback:timestamp:pid:random\<close>.\<close>

definition fallback_record :: "runtime \<Rightarrow> string" where
  "fallback_record rt =
     (case rt_rand_fallback rt of (b0, b1, b2, b3) \<Rightarrow>
        let randomNum = of_char b0 * 16777216 + of_char b1 * 65536 + of_char b2 * 256 + of_char b3
        in ''fallback:'' @ FormatInt (rt_now_fallback rt) @ '':'' @ FormatInt (rt_pid rt)
             @ '':'' @ FormatInt randomNum)"

definition generateFallbackErrorID :: "runtime \<Rightarrow> string" where
  "generateFallbackErrorID rt = EncodeToString (fallback_record rt)"

text \<open>
  \<open>generateErrorID\<close>. It passes \<open>skip + 1\<close> to \<open>tryGenerateErrorID\<close>, which passes its
  own argument on unchanged.
\<close>

definition generateErrorID :: "nat \<Rightarrow> runtime \<Rightarrow> string" where
  "generateErrorID skip rt =
     (let ident = tryGenerateErrorID (skip + 1) rt
      in if ident \<noteq> [] then ident else generateFallbackErrorID rt)"

subsection \<open>Decoding\<close>

record ErrorIDInfo =
  Function :: string
  File :: string
  Line :: int
  Timestamp :: int
  GoroutineID :: int
  ProcessID :: int
  RandomSuffix :: string
  TimeFormatted :: string
  Raw :: string

text \<open>The two errors of \<open>DecodeErrorID\<close>: the base64 step failed, or fewer than 6 parts.\<close>

datatype decode_error = Base64Failure | InvalidFormat nat

text \<open>
  \<open>DecodeErrorID\<close> returns the pair (info, err) of the source, each \<open>None\<close> for nil.
  \<open>format_time\<close> stands for \<open>time.Unix(0, t).Format(...)\<close>, which depends on
  the local time zone.
\<close>

definition DecodeErrorID :: "(int \<Rightarrow> string) \<Rightarrow> string \<Rightarrow> ErrorIDInfo option \<times> decode_error option" where
  "DecodeErrorID format_time encodedID =
     (case DecodeString encodedID of
        None \<Rightarrow> (None, Some Base64Failure)
      | Some raw \<Rightarrow>
          let info = \<lparr>Function = [], File = [], Line = 0, Timestamp = 0, GoroutineID = 0,
                      ProcessID = 0, RandomSuffix = [], TimeFormatted = [], Raw = raw\<rparr>;
              parts = Split raw CHR '':''
          in if length parts < 6 then (Some info, Some (InvalidFormat (length parts)))
             else
               let funcFilePart = parts ! 0;
                   atIndex = LastIndex funcFilePart CHR ''@'';
                   info = (if atIndex \<ge> 0
                           then info\<lparr>Function := take (nat atIndex) funcFilePart,
                                     File := drop (nat (atIndex + 1)) funcFilePart\<rparr>
                           else info\<lparr>Function := ''unknown'', File := funcFilePart\<rparr>);
                   info = (case Atoi (parts ! 1) of
                             Some line \<Rightarrow> info\<lparr>Line := line\<rparr> | None \<Rightarrow> info);
                   info = (case ParseInt (parts ! 2) of
                             Some timestamp \<Rightarrow>
                               info\<lparr>Timestamp := timestamp, TimeFormatted := format_time timestamp\<rparr>
                           | None \<Rightarrow> info);
                   info = (case ParseUint (parts ! 3) of
                             Some gid \<Rightarrow> info\<lparr>GoroutineID := gid\<rparr> | None \<Rightarrow> info);
                   info = (case Atoi (parts ! 4) of
                             Some pid \<Rightarrow> info\<lparr>ProcessID := pid\<rparr> | None \<Rightarrow> info);
                   info = (if length parts > 5 then info\<lparr>RandomSuffix := parts ! 5\<rparr> else info)
               in (Some info, None))"

text \<open>
  The call sites the round trip is stated for: the function name is not empty, neither
  name contains the field separator \<open>:\<close>, the file name does not end with \<open>@\<close>, and
  the line is a non-negative Go \<open>int\<close>.
\<close>

definition site_wellformed :: "nat \<Rightarrow> runtime \<Rightarrow> bool" where
  "site_wellformed skip rt =
     (case caller_site skip rt of (funcName, filename, line) \<Rightarrow>
        funcName \<noteq> [] \<and> CHR '':'' \<notin> set funcName \<and> CHR '':'' \<notin> set filename
        \<and> take 1 (rev filename) \<noteq> ''@'' \<and> 0 \<le> line \<and> line < 2 ^ 63)"

text \<open>
  A stand-in for the time formatting, and a runtime observation, for the examples: a
  call from \<open>GetUser\<close> at user_logic.go:25, in goroutine 1 of process 12345.
\<close>

definition example_format :: "int \<Rightarrow> string" where
  "example_format t = FormatInt t"

definition example_runtime :: runtime where
  "example_runtime =
     \<lparr>rt_stack = replicate 4 \<lparr>fr_file = ''/src/errors/errors.go'', fr_line = 1,
                               fr_func = Some ''errors.generateErrorID''\<rparr>
                  @ [\<lparr>fr_file = ''/src/app/user_logic.go'', fr_line = 25,
                      fr_func = Some ''api/user/v1.GetUser''\<rparr>],
      rt_now = 1640995200123456789,
      rt_stacktext = Some ''goroutine 1 [running]:'',
      rt_pid = 12345,
      rt_rand = Some [CHR 0xa1, CHR 0xb2, CHR 0xc3, CHR 0xd4],
      rt_now_suffix = 1640995200123456790,
      rt_probe_panics = False,
      rt_now_fallback = 1640995200123456791,
      rt_rand_fallback = (CHR 0x01, CHR 0x02, CHR 0x03, CHR 0x04)\<rparr>"


text \<open>
  The same observation for a call from line 7 of a file named \<open>x:-5\<close>, and for a call
  from \<open>GetUser\<close> in a file named \<open>user@logic.go\<close>.
\<close>

definition colon_file_runtime :: runtime where
  "colon_file_runtime =
     example_runtime\<lparr>rt_stack :=
       replicate 4 \<lparr>fr_file = ''/src/errors/errors.go'', fr_line = 1,
                      fr_func = Some ''errors.generateErrorID''\<rparr>
         @ [\<lparr>fr_file = ''/gen/dir/x:-5'', fr_line = 7, fr_func = Some ''gen.siteAt''\<rparr>]\<rparr>"

definition inner_at_runtime :: runtime where
  "inner_at_runtime =
     example_runtime\<lparr>rt_stack :=
       replicate 4 \<lparr>fr_file = ''/src/errors/errors.go'', fr_line = 1,
                      fr_func = Some ''errors.generateErrorID''\<rparr>
         @ [\<lparr>fr_file = ''/src/app/user@logic.go'', fr_line = 25,
             fr_func = Some ''api/user/v1.GetUser''\<rparr>]\<rparr>"

text \<open>The same observation, with a probe that panics: the fallback path.\<close>

definition panicking_runtime :: runtime where
  "panicking_runtime = example_runtime\<lparr>rt_probe_panics := True\<rparr>"

section \<open>Status and Error values (errors.go)\<close>

subsection \<open>Go maps in a store\<close>

text \<open>
  A \<open>map[string]string\<close> is a reference: two variables can hold the same map, and an
  assignment through one is seen through the other. The store is the list of the maps
  allocated so far, a reference is an index into it, and the nil map is \<open>None\<close>. The
  entries of a map are an association list with distinct keys. Go visits the entries of a
  map in no fixed order; the loops below visit them in list order, and each of them only
  assigns the visited entries to another map, which gives the same map in any order.
\<close>

type_synonym gomap = "(string \<times> string) list"
type_synonym mapref = nat
type_synonym store = "gomap list"

text \<open>The entries a \<open>range\<close> loop visits; the nil map has none.\<close>

definition map_entries :: "store \<Rightarrow> mapref option \<Rightarrow> gomap" where
  "map_entries h r = (case r of None \<Rightarrow> [] | Some a \<Rightarrow> if a < length h then h ! a else [])"

text \<open>\<open>make(map[string]string)\<close>: a new, empty map.\<close>

definition make_map :: "store \<Rightarrow> mapref \<times> store" where
  "make_map h = (length h, h @ [[]])"

text \<open>\<open>m[k] = v\<close> on a map that is not nil.\<close>

definition map_assign :: "store \<Rightarrow> mapref \<Rightarrow> string \<Rightarrow> string \<Rightarrow> store" where
  "map_assign h a k v = h[a := AList.update k v (h ! a)]"

text \<open>\<open>m[k]\<close>: the empty string for a missing key and for the nil map.\<close>

definition map_index :: "store \<Rightarrow> mapref option \<Rightarrow> string \<Rightarrow> string" where
  "map_index h r k = (case map_of (map_entries h r) k of None \<Rightarrow> [] | Some v \<Rightarrow> v)"

text \<open>\<open>delete(m, k)\<close>: nothing happens on the nil map.\<close>

definition map_delete :: "store \<Rightarrow> mapref option \<Rightarrow> string \<Rightarrow> store" where
  "map_delete h r k = (case r of None \<Rightarrow> h | Some a \<Rightarrow> h[a := AList.delete k (h ! a)])"

text \<open>The loop \<open>for k, v := range src { dst[k] = v }\<close> over the entries \<open>es\<close> of \<open>src\<close>.\<close>

definition copy_entries :: "store \<Rightarrow> gomap \<Rightarrow> mapref \<Rightarrow> store" where
  "copy_entries h es dst = fold (\<lambda>(k, v) h'. map_assign h' dst k v) es h"

text \<open>A reference that points into the store (nil does).\<close>

definition valid_ref :: "store \<Rightarrow> mapref option \<Rightarrow> bool" where
  "valid_ref h r = (case r of None \<Rightarrow> True | Some a \<Rightarrow> a < length h \<and> distinct (map fst (h ! a)))"

subsection \<open>The structs\<close>

text \<open>\<open>Status\<close>; \<open>Code\<close> is an \<open>int32\<close>.\<close>

record Status =
  Code :: "32 word"
  Reason :: string
  Message :: string
  Metadata :: "mapref option"
  ID :: string

text \<open>
  The message \<open>errorspb.Status\<close>. On the wire (packed into an \<open>anypb.Any\<close>) its map is a
  list of entries; in memory it is a Go map.
\<close>

record 'm pbStatus =
  pb_Code :: "32 word"
  pb_Reason :: string
  pb_Message :: string
  pb_Metadata :: 'm

text \<open>
  A detail of a remote status, as packed: an \<open>errorspb.Status\<close>; bytes typed as an
  \<open>errorspb.Status\<close> that do not unmarshal, with the fields read before the failure;
  an \<open>Any\<close> that itself holds a packed message; or anything else (another message
  type, or bytes of another type that do not unmarshal).
\<close>

datatype detail =
    PbStatus "gomap pbStatus"
  | PbCorrupt "gomap pbStatus"
  | PbAny detail
  | PbOther

text \<open>\<open>*status.Status\<close> of google.golang.org/grpc/status: code, message, details.\<close>

record RemoteStatus =
  rs_code :: grpc_code
  rs_message :: string
  rs_details :: "detail list"

text \<open>
  \<open>*Error\<close> is a \<open>Status\<close> and a cause. An \<open>error\<close> is one of: an \<open>*Error\<close>; the error of
  a remote status (\<open>(*status.Status).Err()\<close>); any other error, with its display text and
  what \<open>Unwrap\<close> returns.
\<close>

datatype Error = Error (status: Status) (cause: "go_error option")
  and go_error = AppErr Error | GrpcErr RemoteStatus | Foreign string "go_error option"

definition UnknownCode :: int where "UnknownCode = 500"
definition UnknownReason :: string where "UnknownReason = []"

text \<open>The assignment \<open>e.ID = v\<close>.\<close>

definition set_ID :: "Error \<Rightarrow> string \<Rightarrow> Error" where
  "set_ID e v = Error ((status e)\<lparr>ID := v\<rparr>) (cause e)"

subsection \<open>Clone and the methods built on it\<close>

text \<open>\<open>Clone\<close>: nil for nil; otherwise a new map with the entries copied, and the fields.\<close>

definition Clone :: "store \<Rightarrow> Error option \<Rightarrow> Error option \<times> store" where
  "Clone h err =
     (case err of
        None \<Rightarrow> (None, h)
      | Some e \<Rightarrow>
          let (metadata, h1) = make_map h;
              h2 = copy_entries h1 (map_entries h1 (Metadata (status e))) metadata
          in (Some (Error \<lparr>Code = Code (status e), Reason = Reason (status e),
                            Message = Message (status e), Metadata = Some metadata,
                            ID = ID (status e)\<rparr> (cause e)),
              h2))"

text \<open>
  \<open>WithCause\<close>, \<open>WithMetadata\<close>, \<open>WithID\<close>: the receiver is a pointer and may be nil; then
  \<open>Clone\<close> returns nil and the assignment to its field panics, which is \<open>None\<close> here.
\<close>

definition WithCause :: "store \<Rightarrow> Error option \<Rightarrow> go_error option \<Rightarrow> (Error \<times> store) option" where
  "WithCause h e c =
     (case Clone h e of
        (None, h') \<Rightarrow> None
      | (Some err, h') \<Rightarrow> Some (Error (status err) c, h'))"

definition WithMetadata :: "store \<Rightarrow> Error option \<Rightarrow> mapref option \<Rightarrow> (Error \<times> store) option" where
  "WithMetadata h e md =
     (case Clone h e of
        (None, h') \<Rightarrow> None
      | (Some err, h') \<Rightarrow> Some (Error ((status err)\<lparr>Metadata := md\<rparr>) (cause err), h'))"

definition WithID :: "store \<Rightarrow> Error option \<Rightarrow> string \<Rightarrow> (Error \<times> store) option" where
  "WithID h e v =
     (case Clone h e of
        (None, h') \<Rightarrow> None
      | (Some err, h') \<Rightarrow> Some (set_ID err v, h'))"

text \<open>
  \<open>GetID\<close>, on a receiver that is not nil: the identifier returned, and the receiver
  afterwards. \<open>rt\<close> is what the runtime reports if an identifier is generated.
\<close>

definition GetID :: "runtime \<Rightarrow> Error \<Rightarrow> string \<times> Error" where
  "GetID rt e =
     (let e' = (if ID (status e) = [] then set_ID e (generateErrorID 3 rt) else e)
      in (ID (status e'), e'))"

text \<open>\<open>New\<close>.\<close>

definition New :: "runtime \<Rightarrow> int \<Rightarrow> string \<Rightarrow> string \<Rightarrow> Error" where
  "New rt code reason message =
     Error \<lparr>Code = word_of_int code, Reason = reason, Message = message, Metadata = None,
            ID = generateErrorID 2 rt\<rparr> None"

section \<open>Remote conversion\<close>

subsection \<open>What errors.go uses of grpc/status and protobuf\<close>

text \<open>
  \<open>utf8.ValidString\<close>: the protobuf encoder refuses a proto3 string field that is not
  valid UTF-8, and \<open>anypb.New\<close> returns that error.
\<close>

definition is_cont :: "char \<Rightarrow> bool" where
  "is_cont c \<longleftrightarrow> 128 \<le> (of_char c :: int) \<and> (of_char c :: int) \<le> 191"

fun valid_utf8 :: "string \<Rightarrow> bool" where
  "valid_utf8 [] = True"
| "valid_utf8 (c # cs) =
     (let b = (of_char c :: int)
      in if b < 128 then valid_utf8 cs
         else if 194 \<le> b \<and> b \<le> 223 then
           (case cs of c1 # r \<Rightarrow> is_cont c1 \<and> valid_utf8 r | _ \<Rightarrow> False)
         else if 224 \<le> b \<and> b \<le> 239 then
           (case cs of
              c1 # c2 # r \<Rightarrow>
                (let b1 = (of_char c1 :: int)
                 in (if b = 224 then 160 \<le> b1 \<and> b1 \<le> 191
                     else if b = 237 then 128 \<le> b1 \<and> b1 \<le> 159
                     else is_cont c1)
                    \<and> is_cont c2 \<and> valid_utf8 r)
            | _ \<Rightarrow> False)
         else if 240 \<le> b \<and> b \<le> 244 then
           (case cs of
              c1 # c2 # c3 # r \<Rightarrow>
                (let b1 = (of_char c1 :: int)
                 in (if b = 240 then 144 \<le> b1 \<and> b1 \<le> 191
                     else if b = 244 then 128 \<le> b1 \<and> b1 \<le> 143
                     else is_cont c1)
                    \<and> is_cont c2 \<and> is_cont c3 \<and> valid_utf8 r)
            | _ \<Rightarrow> False)
         else False)"

text \<open>\<open>anypb.New\<close> of an \<open>errorspb.Status\<close>: the packed message, or \<open>None\<close> for the error.\<close>

definition anypb_New :: "gomap pbStatus \<Rightarrow> detail option" where
  "anypb_New m =
     (if valid_utf8 (pb_Reason m) \<and> valid_utf8 (pb_Message m)
         \<and> list_all (\<lambda>(k, v). valid_utf8 k \<and> valid_utf8 v) (pb_Metadata m)
      then Some (PbStatus m) else None)"

definition status_New :: "grpc_code \<Rightarrow> string \<Rightarrow> RemoteStatus" where
  "status_New c msg = \<lparr>rs_code = c, rs_message = msg, rs_details = []\<rparr>"

text \<open>
  \<open>(*Status).WithDetails\<close> with one detail: an error (\<open>None\<close>, the status returned is nil)
  for the code OK, and when the detail cannot be packed.
\<close>

definition WithDetails :: "RemoteStatus \<Rightarrow> gomap pbStatus \<Rightarrow> RemoteStatus option" where
  "WithDetails s d =
     (if rs_code s = codes_OK then None
      else (case anypb_New d of
              None \<Rightarrow> None
            | Some a \<Rightarrow> Some (s\<lparr>rs_details := rs_details s @ [a]\<rparr>)))"

text \<open>\<open>(*Status).Err\<close>: nil for the nil status and for the code OK.\<close>

definition status_Err :: "RemoteStatus option \<Rightarrow> go_error option" where
  "status_Err s =
     (case s of
        None \<Rightarrow> None
      | Some st \<Rightarrow> if rs_code st = codes_OK then None else Some (GrpcErr st))"

text \<open>Unmarshalling an \<open>errorspb.Status\<close>: a map field with no entry stays nil.\<close>

definition unmarshal_Status :: "store \<Rightarrow> gomap pbStatus \<Rightarrow> (mapref option) pbStatus \<times> store" where
  "unmarshal_Status h p =
     (if pb_Metadata p = []
      then (\<lparr>pb_Code = pb_Code p, pb_Reason = pb_Reason p, pb_Message = pb_Message p,
             pb_Metadata = None\<rparr>, h)
      else let (m, h1) = make_map h;
               h2 = copy_entries h1 (pb_Metadata p) m
           in (\<lparr>pb_Code = pb_Code p, pb_Reason = pb_Reason p, pb_Message = pb_Message p,
                 pb_Metadata = Some m\<rparr>, h2))"

text \<open>
  An element of \<open>(*Status).Details()\<close>: each packed detail, unmarshalled. A detail
  that does not unmarshal gives the error of \<open>UnmarshalNew\<close> in its place, which is
  neither an \<open>*errorspb.Status\<close> nor an \<open>*anypb.Any\<close>.
\<close>

datatype message = StatusMsg "(mapref option) pbStatus" | AnyMsg detail | OtherMsg

fun Details :: "store \<Rightarrow> detail list \<Rightarrow> message list \<times> store" where
  "Details h [] = ([], h)"
| "Details h (d # ds) =
     (let (m, h1) = (case d of
                       PbStatus p \<Rightarrow> (let (s, h') = unmarshal_Status h p in (StatusMsg s, h'))
                     | PbCorrupt p \<Rightarrow> (OtherMsg, h)
                     | PbAny inner \<Rightarrow> (AnyMsg inner, h)
                     | PbOther \<Rightarrow> (OtherMsg, h));
          (ms, h2) = Details h1 ds
      in (m # ms, h2))"

subsection \<open>GRPCStatus\<close>

text \<open>
  \<open>GRPCStatus\<close>, on a receiver that is not nil: the status returned (nil when
  \<open>WithDetails\<close> fails, its error being dropped), and the receiver afterwards. The map
  \<open>metadata\<close> is local and only packed into the detail, so it is a value here.
\<close>

definition GRPCStatus :: "runtime \<Rightarrow> store \<Rightarrow> Error \<Rightarrow> RemoteStatus option \<times> Error" where
  "GRPCStatus rt h e0 =
     (let e = (if ID (status e0) = [] then set_ID e0 (generateErrorID 3 rt) else e0);
          metadata = (if Metadata (status e) \<noteq> None
                      then fold (\<lambda>(k, v) m. AList.update k v m) (map_entries h (Metadata (status e))) []
                      else []);
          metadata = AList.update ''error_id'' (ID (status e)) metadata;
          s = WithDetails (status_New (ToGRPCCode (sint (Code (status e)))) (Message (status e)))
                \<lparr>pb_Code = Code (status e), pb_Reason = Reason (status e),
                  pb_Message = Message (status e), pb_Metadata = metadata\<rparr>
      in (s, e))"

subsection \<open>Display texts\<close>

text \<open>\<open>codes.Code.String\<close>.\<close>

definition code_String :: "grpc_code \<Rightarrow> string" where
  "code_String c =
     (if unat c < 17
      then [''OK'', ''Canceled'', ''Unknown'', ''InvalidArgument'', ''DeadlineExceeded'',
            ''NotFound'', ''AlreadyExists'', ''PermissionDenied'', ''ResourceExhausted'',
            ''FailedPrecondition'', ''Aborted'', ''OutOfRange'', ''Unimplemented'', ''Internal'',
            ''Unavailable'', ''DataLoss'', ''Unauthenticated''] ! unat c
      else ''Code('' @ FormatInt (uint c) @ '')'')"

text \<open>The verb \<open>%v\<close> of a \<open>map[string]string\<close>: the entries by ascending key.\<close>

fun join_entries :: "gomap \<Rightarrow> string" where
  "join_entries [] = []"
| "join_entries [(k, v)] = k @ '':'' @ v"
| "join_entries ((k, v) # es) = k @ '':'' @ v @ '' '' @ join_entries es"

definition fmt_map :: "gomap \<Rightarrow> string" where
  "fmt_map es = ''map['' @ join_entries (sort_key fst es) @ '']''"

text \<open>The method \<open>Error()\<close> of each kind of error.\<close>

fun Error_text :: "store \<Rightarrow> go_error \<Rightarrow> string" where
  "Error_text h (AppErr (Error st c)) =
     (let fields = '' code = '' @ FormatInt (sint (Code st)) @ '' reason = '' @ Reason st
               @ '' message = '' @ Message st @ '' metadata = '' @ fmt_map (map_entries h (Metadata st))
               @ '' cause = '' @ (case c of None \<Rightarrow> ''<nil>'' | Some ce \<Rightarrow> Error_text h ce)
      in if ID st \<noteq> [] then ''error: id = '' @ ID st @ fields else ''error:'' @ fields)"
| "Error_text h (GrpcErr s) =
     ''rpc error: code = '' @ code_String (rs_code s) @ '' desc = '' @ rs_message s"
| "Error_text h (Foreign text c) = text"

subsection \<open>FromError\<close>

text \<open>\<open>errors.As(err, &se)\<close> for \<open>se\<close> an \<open>*Error\<close>: the first \<open>*Error\<close> of the chain.\<close>

fun errors_As :: "go_error \<Rightarrow> Error option" where
  "errors_As (AppErr e) = Some e"
| "errors_As (GrpcErr s) = None"
| "errors_As (Foreign text None) = None"
| "errors_As (Foreign text (Some c)) = errors_As c"

text \<open>
  \<open>errors.As\<close> for the interface with the method \<open>GRPCStatus\<close>, then the call of that
  method: \<open>None\<close> when no error of the chain has the method, otherwise what it returns.
\<close>

fun find_grpcstatus :: "runtime \<Rightarrow> store \<Rightarrow> go_error \<Rightarrow> RemoteStatus option option" where
  "find_grpcstatus rt h (AppErr e) = Some (fst (GRPCStatus rt h e))"
| "find_grpcstatus rt h (GrpcErr s) = Some (Some s)"
| "find_grpcstatus rt h (Foreign text None) = None"
| "find_grpcstatus rt h (Foreign text (Some c)) = find_grpcstatus rt h c"

text \<open>
  \<open>status.FromError\<close> for an error that is not nil: the error itself has the method
  \<open>GRPCStatus\<close>, or an error it wraps has it (then the message is the text of the outer
  error), or none has; a nil status counts as none.
\<close>

definition status_FromError :: "runtime \<Rightarrow> store \<Rightarrow> go_error \<Rightarrow> RemoteStatus \<times> bool" where
  "status_FromError rt h err =
     (case err of
        Foreign text c \<Rightarrow>
          (case find_grpcstatus rt h err of
             Some (Some s) \<Rightarrow> (s\<lparr>rs_message := Error_text h err\<rparr>, True)
           | _ \<Rightarrow> (status_New codes_Unknown (Error_text h err), False))
      | _ \<Rightarrow>
          (case find_grpcstatus rt h err of
             Some (Some s) \<Rightarrow> (s, True)
           | _ \<Rightarrow> (status_New codes_Unknown (Error_text h err), False)))"

text \<open>
  The body of the two \<open>case\<close>s of the loop over the details: the fields are taken from
  the message \<open>d\<close>; a non-empty \<open>error_id\<close> entry becomes the identifier and is deleted
  from the map.
\<close>

definition take_status :: "store \<Rightarrow> Error \<Rightarrow> (mapref option) pbStatus \<Rightarrow> Error \<times> store" where
  "take_status h ret d =
     (let st = (status ret)\<lparr>Code := pb_Code d, Reason := pb_Reason d, Message := pb_Message d,
                            Metadata := pb_Metadata d\<rparr>
      in if pb_Metadata d \<noteq> None \<and> map_index h (pb_Metadata d) ''error_id'' \<noteq> []
         then (Error (st\<lparr>ID := map_index h (pb_Metadata d) ''error_id'', Metadata := pb_Metadata d\<rparr>)
                 (cause ret),
               map_delete h (pb_Metadata d) ''error_id'')
         else (Error st (cause ret), h))"

text \<open>
  The loop \<open>for _, detail := range gs.Details()\<close>: it returns at the first match. In
  the \<open>*anypb.Any\<close> case \<open>MessageIs\<close> looks at the type only and the error of
  \<open>UnmarshalTo\<close> is dropped, so bytes typed as an \<open>errorspb.Status\<close> that do not
  unmarshal match too, with the fields read before the failure.
\<close>

fun details_loop :: "store \<Rightarrow> Error \<Rightarrow> message list \<Rightarrow> Error \<times> store" where
  "details_loop h ret [] = (ret, h)"
| "details_loop h ret (m # ms) =
     (case m of
        StatusMsg d \<Rightarrow> take_status h ret d
      | AnyMsg inner \<Rightarrow>
          (case inner of
             PbStatus p \<Rightarrow> (let (s, h1) = unmarshal_Status h p in take_status h1 ret s)
           | PbCorrupt p \<Rightarrow> (let (s, h1) = unmarshal_Status h p in take_status h1 ret s)
           | _ \<Rightarrow> details_loop h ret ms)
      | OtherMsg \<Rightarrow> details_loop h ret ms)"

definition FromError :: "runtime \<Rightarrow> store \<Rightarrow> go_error option \<Rightarrow> Error option \<times> store" where
  "FromError rt h err0 =
     (case err0 of
        None \<Rightarrow> (None, h)
      | Some err \<Rightarrow>
          (case errors_As err of
             Some se \<Rightarrow>
               (Some (if ID (status se) = [] then set_ID se (generateErrorID 3 rt) else se), h)
           | None \<Rightarrow>
               (case status_FromError rt h err of (gs, ok) \<Rightarrow>
                  if \<not> ok
                  then (Some (Error \<lparr>Code = word_of_int UnknownCode, Reason = UnknownReason,
                                      Message = Error_text h err, Metadata = None,
                                      ID = generateErrorID 2 rt\<rparr> None), h)
                  else
                    let ret = Error \<lparr>Code = word_of_int (ToHTTPCode (rs_code gs)),
                                     Reason = UnknownReason, Message = rs_message gs,
                                     Metadata = None, ID = generateErrorID 2 rt\<rparr> None;
                        (msgs, h1) = Details h (rs_details gs)
                    in (case details_loop h1 ret msgs of (r, h2) \<Rightarrow> (Some r, h2)))))"

text \<open>A generic error: no error of its chain is an \<open>*Error\<close> or carries a remote status.\<close>

fun generic_error :: "go_error \<Rightarrow> bool" where
  "generic_error (AppErr e) = False"
| "generic_error (GrpcErr s) = False"
| "generic_error (Foreign text None) = True"
| "generic_error (Foreign text (Some c)) = generic_error c"

text \<open>For the examples: a store with the map \<open>{"k": "v"}\<close>, and an error that holds it.\<close>

definition example_store :: store where
  "example_store = [[(''k'', ''v'')]]"

definition example_error :: Error where
  "example_error =
     Error \<lparr>Code = 404, Reason = ''USER_NOT_FOUND'', Message = ''missing'', Metadata = Some 0,
            ID = []\<rparr> None"

text \<open>The same error with the code 200.\<close>

definition ok_coded_error :: Error where
  "ok_coded_error = Error ((status example_error)\<lparr>Code := 200\<rparr>) None"

text \<open>The same error with a message that is not valid UTF-8 (the single byte 0xff).\<close>

definition bad_text_error :: Error where
  "bad_text_error = Error ((status example_error)\<lparr>Message := [CHR 0xff]\<rparr>) None"

text \<open>
  The same call site as \<open>example_runtime\<close>, at a later reading of the clock and with
  other random bytes.
\<close>

definition later_runtime :: runtime where
  "later_runtime =
     example_runtime\<lparr>rt_now := 1640995200123999999,
                      rt_rand := Some [CHR 0x0e, CHR 0x5f, CHR 0x70, CHR 0x81]\<rparr>"

section \<open>Properties of the translator\<close>

lemmas codes_defs =
  codes_OK_def codes_Canceled_def codes_Unknown_def codes_InvalidArgument_def
  codes_DeadlineExceeded_def codes_NotFound_def codes_AlreadyExists_def
  codes_PermissionDenied_def codes_ResourceExhausted_def codes_FailedPrecondition_def
  codes_Aborted_def codes_OutOfRange_def codes_Unimplemented_def codes_Internal_def
  codes_Unavailable_def codes_DataLoss_def codes_Unauthenticated_def

lemmas http_defs =
  StatusOK_def StatusBadRequest_def StatusUnauthorized_def StatusForbidden_def
  StatusNotFound_def StatusConflict_def StatusTooManyRequests_def
  StatusInternalServerError_def StatusNotImplemented_def StatusServiceUnavailable_def
  StatusGatewayTimeout_def

lemma ToGRPCCode_listed_pairs:
  "ToGRPCCode 404 = codes_NotFound"
  "ToGRPCCode 409 = codes_Aborted"
  "ToGRPCCode 429 = codes_ResourceExhausted"
  "ToGRPCCode 501 = codes_Unimplemented"
  "ToGRPCCode 503 = codes_Unavailable"
  "ToGRPCCode 504 = codes_DeadlineExceeded"
  by (simp_all add: ToGRPCCode_def http_defs)

lemma ToHTTPCode_listed_pairs:
  "ToHTTPCode codes_NotFound = 404"
  "ToHTTPCode codes_Aborted = 409"
  "ToHTTPCode codes_ResourceExhausted = 429"
  "ToHTTPCode codes_Unimplemented = 501"
  "ToHTTPCode codes_Unavailable = 503"
  "ToHTTPCode codes_DeadlineExceeded = 504"
  "ToHTTPCode codes_Canceled = 499"
  by (simp_all add: ToHTTPCode_def http_defs codes_defs)

text \<open>
  C3. Web 499 and RPC canceled: \<open>ToHTTPCode\<close> sends canceled to 499, but
  \<open>ToGRPCCode\<close> has no case for 499 and answers with the default, unknown; translated
  back, that is 500 and not 499.
\<close>

theorem C3_ToGRPCCode_499_is_Unknown:
  "ToHTTPCode codes_Canceled = 499 \<and> ToGRPCCode 499 = codes_Unknown
   \<and> ToGRPCCode 499 \<noteq> codes_Canceled \<and> ToHTTPCode (ToGRPCCode 499) = 500"
  by (simp add: ToGRPCCode_def ToHTTPCode_def http_defs codes_defs)

text \<open>
  C9. The RPC-to-web translation sends invalid-argument, failed-precondition and
  out-of-range to 400, and unknown and data-loss to 500; an RPC code with no case of its
  own goes to 500, and a web code with no case of its own goes to the RPC code unknown.
\<close>

theorem C9_collapse_and_defaults:
  "ToHTTPCode codes_InvalidArgument = 400 \<and> ToHTTPCode codes_FailedPrecondition = 400
   \<and> ToHTTPCode codes_OutOfRange = 400
   \<and> ToHTTPCode codes_Unknown = 500 \<and> ToHTTPCode codes_DataLoss = 500
   \<and> (\<forall>c. c \<notin> set grpc_table \<longrightarrow> ToHTTPCode c = 500)
   \<and> (\<forall>w. w \<notin> set http_table \<longrightarrow> ToGRPCCode w = codes_Unknown)"
  by (simp add: ToGRPCCode_def ToHTTPCode_def http_defs codes_defs http_table_def grpc_table_def)

theorem C9_collapse_and_defaults_witness:
  "(17 :: grpc_code) \<notin> set grpc_table \<and> ToHTTPCode 17 = 500
   \<and> (418 :: int) \<notin> set http_table \<and> ToGRPCCode 418 = codes_Unknown"
proof -
  have a: "(17 :: grpc_code) \<notin> set grpc_table" by (simp add: grpc_table_def codes_defs)
  have b: "(418 :: int) \<notin> set http_table" by (simp add: http_table_def http_defs)
  from C9_collapse_and_defaults a b show ?thesis by blast
qed

section \<open>Properties of the library functions\<close>

subsection \<open>Splitting\<close>

lemma Split_not_Nil: "Split s sep \<noteq> []"
  by (induction s) (auto split: list.splits)

lemma Split_no_sep: "sep \<notin> set a \<Longrightarrow> Split a sep = [a]"
  by (induction a) auto

lemma Split_append_sep: "sep \<notin> set a \<Longrightarrow> Split (a @ sep # b) sep = a # Split b sep"
  by (induction a) auto



lemma LastIndex_absent: "sep \<notin> set s \<Longrightarrow> LastIndex s sep = - 1"
  by (simp add: LastIndex_def)







subsection \<open>Decimal numbers\<close>

lemma byte_range: "0 \<le> (of_char c :: int) \<and> (of_char c :: int) < 256"
proof -
  have "(of_char c :: int) = int (of_char c)" by (simp add: of_nat_of_char)
  then show ?thesis using nat_of_char_less_256 [of c] by simp
qed

lemma of_char_digit_char: "0 \<le> d \<Longrightarrow> d < 10 \<Longrightarrow> (of_char (digit_char d) :: int) = 48 + d"
  by (simp add: digit_char_def of_char_of)

lemma is_digit_digit_char: "0 \<le> d \<Longrightarrow> d < 10 \<Longrightarrow> is_digit (digit_char d)"
  by (simp add: is_digit_def of_char_digit_char)



lemma format_digits_all_digits: "0 \<le> n \<Longrightarrow> list_all is_digit (format_digits n)"
proof (induction n rule: format_digits.induct)
  case (1 n)
  show ?case
  proof (cases "n < 10")
    case True
    with "1.prems" show ?thesis
      by (subst format_digits.simps) (simp add: is_digit_digit_char)
  next
    case False
    with 1 have "list_all is_digit (format_digits (n div 10))" by simp
    moreover have "is_digit (digit_char (n mod 10))" by (simp add: is_digit_digit_char)
    ultimately show ?thesis using False
      by (subst format_digits.simps) simp
  qed
qed



lemma is_digit_not_sign: "is_digit c \<Longrightarrow> c \<noteq> CHR ''+'' \<and> c \<noteq> CHR ''-'' \<and> c \<noteq> CHR '':''"
  by (auto simp: is_digit_def)

lemma format_digits_no_colon: "0 \<le> n \<Longrightarrow> CHR '':'' \<notin> set (format_digits n)"
  using format_digits_all_digits [of n] is_digit_not_sign by (auto simp: list_all_iff)

lemma FormatInt_no_colon: "CHR '':'' \<notin> set (FormatInt i)"
  using format_digits_no_colon [of i] format_digits_no_colon [of "- i"]
  by (auto simp: FormatInt_def)




subsection \<open>Base64: decoding inverts encoding\<close>

lemma base64_digits:
  fixes v :: int
  assumes "0 \<le> v" "v < 16777216"
  shows "(v div 262144) mod 64 * 262144 + (v div 4096) mod 64 * 4096
           + (v div 64) mod 64 * 64 + v mod 64 = v"
proof -
  define q1 where "q1 = v div 64"
  define q2 where "q2 = q1 div 64"
  define q3 where "q3 = q2 div 64"
  have a: "v div 4096 = q2"
    using zdiv_zmult2_eq [of 64 v 64] by (simp add: q1_def q2_def)
  have b: "v div 262144 = q3"
    using zdiv_zmult2_eq [of 64 "v div 64" 64] zdiv_zmult2_eq [of 4096 v 64]
    by (simp add: q1_def q2_def q3_def)
  have "v = (v div 262144) * 262144 + v mod 262144" by simp
  moreover have "0 \<le> v mod 262144 \<and> v mod 262144 < 262144" by simp
  ultimately have c: "0 \<le> q3 \<and> q3 < 64" using assms unfolding b [symmetric] by linarith
  have e1: "v = q1 * 64 + v mod 64" by (simp add: q1_def)
  have e2: "q1 = q2 * 64 + q1 mod 64" by (simp add: q2_def)
  have e3: "q2 = q3 * 64 + q2 mod 64" by (simp add: q3_def)
  have "q3 mod 64 = q3" using c by simp
  then show ?thesis unfolding a b q1_def [symmetric] using e1 e2 e3 by linarith
qed

lemma base64_digits3:
  fixes v :: int
  assumes "0 \<le> v" "v < 16777216" "v mod 64 = 0"
  shows "(v div 262144) mod 64 * 262144 + (v div 4096) mod 64 * 4096 + (v div 64) mod 64 * 64 = v"
  using base64_digits [OF assms(1,2)] assms(3) by linarith

lemma base64_digits2:
  fixes v :: int
  assumes "0 \<le> v" "v < 16777216" "v mod 64 = 0" "v div 64 mod 64 = 0"
  shows "(v div 262144) mod 64 * 262144 + (v div 4096) mod 64 * 4096 = v"
  using base64_digits3 [OF assms(1,2,3)] assms(4) by linarith

lemma bytes_hi:
  fixes a b c :: int
  assumes "0 \<le> b" "b < 256" "0 \<le> c" "c < 256"
  shows "(a * 65536 + b * 256 + c) div 65536 = a"
  by (rule int_div_pos_eq [where r = "b * 256 + c"]) (use assms in auto)

lemma bytes_mid:
  fixes a b c :: int
  assumes "0 \<le> b" "b < 256" "0 \<le> c" "c < 256"
  shows "(a * 65536 + b * 256 + c) div 256 mod 256 = b"
proof -
  have "(a * 65536 + b * 256 + c) div 256 = a * 256 + b"
    by (rule int_div_pos_eq [where r = c]) (use assms in auto)
  moreover have "(a * 256 + b) mod 256 = b"
    by (rule int_mod_pos_eq [where q = a]) (use assms in auto)
  ultimately show ?thesis by simp
qed

lemma bytes_lo:
  fixes a b c :: int
  assumes "0 \<le> c" "c < 256"
  shows "(a * 65536 + b * 256 + c) mod 256 = c"
  by (rule int_mod_pos_eq [where q = "a * 256 + b"]) (use assms in auto)

lemma decodeMap_table: "\<forall>i\<in>set [0..<64]. decodeMap (encodeStd ! i) = Some (int i)"
  by code_simp

lemma decodeMap_enc6: "decodeMap (enc6 v) = Some (v mod 64)"
proof -
  have "nat (v mod 64) \<in> set [0..<64]" by simp
  then have "decodeMap (encodeStd ! nat (v mod 64)) = Some (int (nat (v mod 64)))"
    using decodeMap_table by blast
  then show ?thesis by (simp add: enc6_def)
qed

lemma decodeMap_pad: "decodeMap CHR ''='' = None"
  by code_simp

lemma pad_not_newline: "\<not> is_newline CHR ''=''"
  by (simp add: is_newline_def)

lemma quantum_bytes_of4:
  "quantum_bytes [d0, d1, d2, d3] =
     (let val = d0 * 262144 + d1 * 4096 + d2 * 64 + d3
      in [char_of (val div 65536), char_of (val div 256), char_of val])"
  by (simp add: quantum_bytes_def)

lemma quantum_bytes_of3:
  "quantum_bytes [d0, d1, d2] =
     (let val = d0 * 262144 + d1 * 4096 + d2 * 64
      in [char_of (val div 65536), char_of (val div 256)])"
  by (simp add: quantum_bytes_def)

lemma quantum_bytes_of2:
  "quantum_bytes [d0, d1] = (let val = d0 * 262144 + d1 * 4096 in [char_of (val div 65536)])"
  by (simp add: quantum_bytes_def)

lemma quantum_bytes4:
  assumes "0 \<le> v" "v < 16777216"
  shows "quantum_bytes [v div 262144 mod 64, v div 4096 mod 64, v div 64 mod 64, v mod 64]
         = [char_of (v div 65536), char_of (v div 256), char_of v]"
  by (simp only: quantum_bytes_of4 base64_digits [OF assms] Let_def)

lemma quantum_bytes3:
  assumes "0 \<le> v" "v < 16777216" "v mod 64 = 0"
  shows "quantum_bytes [v div 262144 mod 64, v div 4096 mod 64, v div 64 mod 64]
         = [char_of (v div 65536), char_of (v div 256)]"
  by (simp only: quantum_bytes_of3 base64_digits3 [OF assms] Let_def)

lemma quantum_bytes2:
  assumes "0 \<le> v" "v < 16777216" "v mod 64 = 0" "v div 64 mod 64 = 0"
  shows "quantum_bytes [v div 262144 mod 64, v div 4096 mod 64] = [char_of (v div 65536)]"
  by (simp only: quantum_bytes_of2 base64_digits2 [OF assms] Let_def)

lemma decode_quantum_full:
  "decode_from [] (enc6 v # enc6 w # enc6 x # enc6 y # src)
   = map_option (\<lambda>r. quantum_bytes [v mod 64, w mod 64, x mod 64, y mod 64] @ r) (decode_from [] src)"
  by (simp add: decodeMap_enc6)

lemma decode_quantum_pad1:
  "decode_from [] [enc6 v, enc6 w, enc6 x, CHR ''='']
   = Some (quantum_bytes [v mod 64, w mod 64, x mod 64])"
  by (simp add: decodeMap_enc6 decodeMap_pad pad_not_newline)

lemma decode_quantum_pad2:
  "decode_from [] [enc6 v, enc6 w, CHR ''='', CHR ''='']
   = Some (quantum_bytes [v mod 64, w mod 64])"
  by (simp add: decodeMap_enc6 decodeMap_pad pad_not_newline)

lemma char_of_byte: "(v :: int) mod 256 = of_char c \<Longrightarrow> char_of v = c"
  by (metis char_of_mod_256 char_of_char)

lemma DecodeString_EncodeToString: "DecodeString (EncodeToString bs) = Some bs"
  unfolding DecodeString_def
proof (induction bs rule: EncodeToString.induct)
  case (1 a b c rest)
  define v :: int where "v = of_char a * 65536 + of_char b * 256 + of_char c"
  have vb: "0 \<le> v" "v < 16777216"
    using byte_range [of a] byte_range [of b] byte_range [of c] unfolding v_def by linarith+
  have bytes: "[char_of (v div 65536), char_of (v div 256), char_of v] = [a, b, c]"
  proof -
    have "v div 65536 = of_char a" unfolding v_def
      using byte_range [of b] byte_range [of c] by (intro bytes_hi) simp_all
    moreover have "v div 256 mod 256 = of_char b" unfolding v_def
      using byte_range [of b] byte_range [of c] by (intro bytes_mid) simp_all
    then have "char_of (v div 256) = b" by (rule char_of_byte)
    moreover have "v mod 256 = of_char c" unfolding v_def
      using byte_range [of c] by (intro bytes_lo) simp_all
    then have "char_of v = c" by (rule char_of_byte)
    ultimately show ?thesis by simp
  qed
  show ?case
    using "1.IH"
    by (simp add: Let_def decode_quantum_full v_def [symmetric] quantum_bytes4 [OF vb] bytes
        del: decode_from.simps)
next
  case (2 a b)
  define v :: int where "v = of_char a * 65536 + of_char b * 256"
  have vb: "0 \<le> v" "v < 16777216"
    using byte_range [of a] byte_range [of b] unfolding v_def by linarith+
  have "v = (of_char a * 1024 + of_char b * 4) * 64" by (simp add: v_def)
  then have m: "v mod 64 = 0" by simp
  have bytes: "[char_of (v div 65536), char_of (v div 256)] = [a, b]"
  proof -
    have "v div 65536 = of_char a"
      using bytes_hi [of "of_char b" 0 "of_char a"] byte_range [of b] by (simp add: v_def)
    moreover have "v div 256 mod 256 = of_char b"
      using bytes_mid [of "of_char b" 0 "of_char a"] byte_range [of b] by (simp add: v_def)
    then have "char_of (v div 256) = b" by (rule char_of_byte)
    ultimately show ?thesis by simp
  qed
  show ?case
    by (simp add: Let_def decode_quantum_pad1 v_def [symmetric] quantum_bytes3 [OF vb m] bytes
        del: decode_from.simps)
next
  case (3 a)
  define v :: int where "v = of_char a * 65536"
  have vb: "0 \<le> v" "v < 16777216" using byte_range [of a] unfolding v_def by linarith+
  have f: "v = (of_char a * 1024) * 64" by (simp add: v_def)
  have m: "v mod 64 = 0" by (subst f) simp
  have "v div 64 = (of_char a * 16) * 64" by (subst f) simp
  then have m2: "v div 64 mod 64 = 0" by simp
  have bytes: "[char_of (v div 65536)] = [a]" by (simp add: v_def)
  show ?case
    by (simp add: Let_def decode_quantum_pad2 v_def [symmetric] quantum_bytes2 [OF vb m m2] bytes
        del: decode_from.simps)
next
  case 4
  show ?case by simp
qed

lemma EncodeToString_not_Nil: "bs \<noteq> [] \<Longrightarrow> EncodeToString bs \<noteq> []"
  by (induction bs rule: EncodeToString.induct) (simp_all add: Let_def)

section \<open>Properties of the identifier codec\<close>


lemma generateErrorID_no_panic:
  "\<not> rt_probe_panics rt \<Longrightarrow> generateErrorID skip rt = EncodeToString (id_record (skip + 1) rt)"
  by (simp add: generateErrorID_def tryGenerateErrorID_def generateErrorIDInternal_def
      id_record_def EncodeToString_not_Nil split: prod.splits)

lemma generateErrorID_panic:
  "rt_probe_panics rt \<Longrightarrow> generateErrorID skip rt = generateFallbackErrorID rt"
  by (simp add: generateErrorID_def tryGenerateErrorID_def generateErrorIDInternal_def)

lemma fallback_record_not_Nil: "fallback_record rt \<noteq> []"
  by (simp add: fallback_record_def Let_def split: prod.splits)

lemma generateErrorID_not_Nil: "generateErrorID skip rt \<noteq> []"
proof (cases "rt_probe_panics rt")
  case True
  then show ?thesis
    by (simp add: generateErrorID_panic generateFallbackErrorID_def EncodeToString_not_Nil
        fallback_record_not_Nil)
next
  case False
  then show ?thesis
    by (simp add: generateErrorID_no_panic id_record_def EncodeToString_not_Nil split: prod.splits)
qed

lemma fallback_record_parts:
  "\<exists>a b c. Split (fallback_record rt) CHR '':'' = [''fallback'', a, b, c]"
proof -
  obtain b0 b1 b2 b3 where r: "rt_rand_fallback rt = (b0, b1, b2, b3)"
    by (cases "rt_rand_fallback rt") auto
  define n :: int where "n = of_char b0 * 16777216 + of_char b1 * 65536 + of_char b2 * 256 + of_char b3"
  have rec: "fallback_record rt = ''fallback'' @ CHR '':'' # FormatInt (rt_now_fallback rt)
               @ CHR '':'' # FormatInt (rt_pid rt) @ CHR '':'' # FormatInt n"
    by (simp add: fallback_record_def r n_def)
  have s3: "Split (FormatInt n) CHR '':'' = [FormatInt n]"
    by (simp add: Split_no_sep FormatInt_no_colon)
  have s2: "Split (FormatInt (rt_pid rt) @ CHR '':'' # FormatInt n) CHR '':''
            = FormatInt (rt_pid rt) # Split (FormatInt n) CHR '':''"
    by (rule Split_append_sep) (rule FormatInt_no_colon)
  have s1: "Split (FormatInt (rt_now_fallback rt) @ CHR '':'' # FormatInt (rt_pid rt)
                     @ CHR '':'' # FormatInt n) CHR '':''
            = FormatInt (rt_now_fallback rt)
                # Split (FormatInt (rt_pid rt) @ CHR '':'' # FormatInt n) CHR '':''"
    by (rule Split_append_sep) (rule FormatInt_no_colon)
  have s0: "Split (''fallback'' @ CHR '':'' # FormatInt (rt_now_fallback rt) @ CHR '':''
                     # FormatInt (rt_pid rt) @ CHR '':'' # FormatInt n) CHR '':''
            = ''fallback'' # Split (FormatInt (rt_now_fallback rt) @ CHR '':''
                     # FormatInt (rt_pid rt) @ CHR '':'' # FormatInt n) CHR '':''"
    by (rule Split_append_sep) simp
  have "Split (fallback_record rt) CHR '':''
        = [''fallback'', FormatInt (rt_now_fallback rt), FormatInt (rt_pid rt), FormatInt n]"
    by (simp only: rec s0 s1 s2 s3)
  then show ?thesis by blast
qed

text \<open>
  C8. Decoding returns an error exactly when the base64 step fails or the payload has
  fewer than 6 colon-separated fields. With at least 6 fields it returns no error, and
  each of the four integer fields holds the parsed value, or 0 when the field does not
  parse.
\<close>

theorem C8_decode_error_iff_malformed:
  "(snd (DecodeErrorID fmt s) \<noteq> None
      \<longleftrightarrow> (case DecodeString s of None \<Rightarrow> True | Some raw \<Rightarrow> length (Split raw CHR '':'') < 6))
   \<and> (\<forall>raw. DecodeString s = Some raw \<and> 6 \<le> length (Split raw CHR '':'') \<longrightarrow>
         (\<exists>info. DecodeErrorID fmt s = (Some info, None)
            \<and> Line info = (case Atoi (Split raw CHR '':'' ! 1) of Some n \<Rightarrow> n | None \<Rightarrow> 0)
            \<and> Timestamp info = (case ParseInt (Split raw CHR '':'' ! 2) of Some n \<Rightarrow> n | None \<Rightarrow> 0)
            \<and> GoroutineID info = (case ParseUint (Split raw CHR '':'' ! 3) of Some n \<Rightarrow> n | None \<Rightarrow> 0)
            \<and> ProcessID info = (case Atoi (Split raw CHR '':'' ! 4) of Some n \<Rightarrow> n | None \<Rightarrow> 0)))"
  by (auto simp: DecodeErrorID_def Let_def split: option.splits)

theorem C8_decode_error_iff_malformed_witness:
  "DecodeString ''ZkB4Ong6eTp6Oi0xOnI='' = Some ''f@x:x:y:z:-1:r''
   \<and> 6 \<le> length (Split ''f@x:x:y:z:-1:r'' CHR '':'')
   \<and> (\<exists>info. DecodeErrorID example_format ''ZkB4Ong6eTp6Oi0xOnI='' = (Some info, None)
         \<and> Line info = 0 \<and> Timestamp info = 0 \<and> GoroutineID info = 0 \<and> ProcessID info = - 1)"
proof -
  have d: "DecodeString ''ZkB4Ong6eTp6Oi0xOnI='' = Some ''f@x:x:y:z:-1:r''" by code_simp
  have l: "6 \<le> length (Split ''f@x:x:y:z:-1:r'' CHR '':'')" by code_simp
  have p: "Atoi (Split ''f@x:x:y:z:-1:r'' CHR '':'' ! 1) = None"
    "ParseInt (Split ''f@x:x:y:z:-1:r'' CHR '':'' ! 2) = None"
    "ParseUint (Split ''f@x:x:y:z:-1:r'' CHR '':'' ! 3) = None"
    "Atoi (Split ''f@x:x:y:z:-1:r'' CHR '':'' ! 4) = Some (- 1)"
    by code_simp+
  from C8_decode_error_iff_malformed [of example_format "''ZkB4Ong6eTp6Oi0xOnI=''"] d l
  have "\<exists>info. DecodeErrorID example_format ''ZkB4Ong6eTp6Oi0xOnI='' = (Some info, None)
         \<and> Line info = (case Atoi (Split ''f@x:x:y:z:-1:r'' CHR '':'' ! 1) of Some n \<Rightarrow> n | None \<Rightarrow> 0)
         \<and> Timestamp info = (case ParseInt (Split ''f@x:x:y:z:-1:r'' CHR '':'' ! 2) of Some n \<Rightarrow> n | None \<Rightarrow> 0)
         \<and> GoroutineID info = (case ParseUint (Split ''f@x:x:y:z:-1:r'' CHR '':'' ! 3) of Some n \<Rightarrow> n | None \<Rightarrow> 0)
         \<and> ProcessID info = (case Atoi (Split ''f@x:x:y:z:-1:r'' CHR '':'' ! 4) of Some n \<Rightarrow> n | None \<Rightarrow> 0)"
    by blast
  then show ?thesis using d l by (simp only: p option.case)
qed

text \<open>
  C2, as stated: the identifier of the fallback path decodes without an error. It does
  not: for the runtime observation \<open>panicking_runtime\<close> the generator takes the fallback
  path, and the decoder answers with the format error (4 fields where 6 are required).
\<close>

theorem C2_fallback_decode_counterexample:
  "generateErrorID 3 panicking_runtime = generateFallbackErrorID panicking_runtime
   \<and> generateErrorID 3 panicking_runtime
       = ''ZmFsbGJhY2s6MTY0MDk5NTIwMDEyMzQ1Njc5MToxMjM0NToxNjkwOTA2MA==''
   \<and> snd (DecodeErrorID example_format (generateErrorID 3 panicking_runtime))
       = Some (InvalidFormat 4)"
  by code_simp

text \<open>
  C2, amended. Every identifier of the fallback path is the base64 encoding of a record
  that starts with the marker \<open>fallback:\<close>; the base64 step of the decoder recovers that
  record; the decoder then returns the record as \<open>Raw\<close> in an otherwise empty info,
  together with the format error for 4 fields.
\<close>

theorem C2_fallback_decodes_to_format_error:
  "take 9 (fallback_record rt) = ''fallback:''
   \<and> generateFallbackErrorID rt = EncodeToString (fallback_record rt)
   \<and> DecodeString (generateFallbackErrorID rt) = Some (fallback_record rt)
   \<and> DecodeErrorID fmt (generateFallbackErrorID rt)
       = (Some \<lparr>Function = [], File = [], Line = 0, Timestamp = 0, GoroutineID = 0,
                 ProcessID = 0, RandomSuffix = [], TimeFormatted = [],
                 Raw = fallback_record rt\<rparr>,
          Some (InvalidFormat 4))"
proof -
  have m: "take 9 (fallback_record rt) = ''fallback:''"
    by (simp add: fallback_record_def Let_def split: prod.splits)
  have d: "DecodeString (generateFallbackErrorID rt) = Some (fallback_record rt)"
    by (simp add: generateFallbackErrorID_def DecodeString_EncodeToString)
  obtain a b c where "Split (fallback_record rt) CHR '':'' = [''fallback'', a, b, c]"
    using fallback_record_parts by blast
  then have "length (Split (fallback_record rt) CHR '':'') = 4" by simp
  then have "DecodeErrorID fmt (generateFallbackErrorID rt)
       = (Some \<lparr>Function = [], File = [], Line = 0, Timestamp = 0, GoroutineID = 0,
                 ProcessID = 0, RandomSuffix = [], TimeFormatted = [],
                 Raw = fallback_record rt\<rparr>,
          Some (InvalidFormat 4))"
    by (simp add: DecodeErrorID_def d Let_def)
  with m d show ?thesis by (simp add: generateFallbackErrorID_def)
qed









text \<open>
  The conditions on the call site, on two more sites: a file name with a \<open>:\<close> can
  bring a negative line back, and a file name with an \<open>@\<close> inside moves the split.
\<close>

lemma colon_file_name_example:
  "caller_site 4 colon_file_runtime = (''siteAt'', ''x:-5'', 7)
   \<and> map_option Line (fst (DecodeErrorID example_format (generateErrorID 3 colon_file_runtime)))
       = Some (- 5)"
  by code_simp

lemma inner_at_file_name_example:
  "site_wellformed 4 inner_at_runtime
   \<and> caller_site 4 inner_at_runtime = (''GetUser'', ''user@logic.go'', 25)
   \<and> map_option Function (fst (DecodeErrorID example_format (generateErrorID 3 inner_at_runtime)))
       = Some ''GetUser@user''
   \<and> map_option File (fst (DecodeErrorID example_format (generateErrorID 3 inner_at_runtime)))
       = Some ''logic.go''"
  by code_simp

section \<open>Properties of the error values\<close>

lemma GetID_stored: "ID (status e) \<noteq> [] \<Longrightarrow> GetID rt e = (ID (status e), e)"
  by (simp add: GetID_def)

lemma GetID_generates:
  "ID (status e) = [] \<Longrightarrow> GetID rt e = (generateErrorID 3 rt, set_ID e (generateErrorID 3 rt))"
  by (simp add: GetID_def set_ID_def)

lemma ID_set_ID: "ID (status (set_ID e v)) = v"
  by (simp add: set_ID_def)

text \<open>
  C7. For an error with an empty identifier, the first \<open>GetID\<close> generates an identifier
  and stores it, and a second \<open>GetID\<close> on the same error returns the same string, whatever
  the runtime reports by then; for an error with a non-empty identifier, \<open>GetID\<close> returns
  the stored identifier and leaves the error as it is.
\<close>

theorem C7_GetID_idempotent:
  "(ID (status e) = [] \<longrightarrow>
      fst (GetID rt1 e) = generateErrorID 3 rt1
      \<and> ID (status (snd (GetID rt1 e))) = fst (GetID rt1 e)
      \<and> fst (GetID rt2 (snd (GetID rt1 e))) = fst (GetID rt1 e))
   \<and> (ID (status e) \<noteq> [] \<longrightarrow> GetID rt1 e = (ID (status e), e))"
proof (intro conjI impI)
  assume empty: "ID (status e) = []"
  define e1 where "e1 = set_ID e (generateErrorID 3 rt1)"
  have g: "GetID rt1 e = (generateErrorID 3 rt1, e1)"
    using empty by (simp add: GetID_generates e1_def)
  have stored: "ID (status e1) = generateErrorID 3 rt1" by (simp add: e1_def ID_set_ID)
  then have "ID (status e1) \<noteq> []" by (simp add: generateErrorID_not_Nil)
  then have "GetID rt2 e1 = (ID (status e1), e1)" by (rule GetID_stored)
  then show "fst (GetID rt2 (snd (GetID rt1 e))) = fst (GetID rt1 e)" by (simp add: g stored)
  show "fst (GetID rt1 e) = generateErrorID 3 rt1" by (simp add: g)
  show "ID (status (snd (GetID rt1 e))) = fst (GetID rt1 e)" by (simp add: g stored)
next
  assume "ID (status e) \<noteq> []"
  then show "GetID rt1 e = (ID (status e), e)" by (rule GetID_stored)
qed

theorem C7_GetID_idempotent_witness:
  "ID (status example_error) = []
   \<and> fst (GetID later_runtime (snd (GetID example_runtime example_error)))
       = fst (GetID example_runtime example_error)
   \<and> ID (status (set_ID example_error ''custom-id'')) \<noteq> []
   \<and> GetID example_runtime (set_ID example_error ''custom-id'')
       = (''custom-id'', set_ID example_error ''custom-id'')"
proof -
  have a: "ID (status example_error) = []" by (simp add: example_error_def)
  have b: "ID (status (set_ID example_error ''custom-id'')) \<noteq> []" by (simp add: ID_set_ID)
  have c: "ID (status (set_ID example_error ''custom-id'')) = ''custom-id''" by (simp add: ID_set_ID)
  from C7_GetID_idempotent [of example_error example_runtime later_runtime] a
  have 1: "fst (GetID later_runtime (snd (GetID example_runtime example_error)))
       = fst (GetID example_runtime example_error)" by blast
  from C7_GetID_idempotent [of "set_ID example_error ''custom-id''" example_runtime later_runtime] b
  have 2: "GetID example_runtime (set_ID example_error ''custom-id'')
       = (ID (status (set_ID example_error ''custom-id'')), set_ID example_error ''custom-id'')"
    by blast
  from a b 1 2 show ?thesis by (simp only: c) simp
qed

subsection \<open>FromError on nil and on generic errors\<close>

lemma generic_error_no_Error: "generic_error err \<Longrightarrow> errors_As err = None"
  by (induction err rule: generic_error.induct) simp_all

lemma generic_error_no_status: "generic_error err \<Longrightarrow> find_grpcstatus rt h err = None"
  by (induction err rule: generic_error.induct) simp_all

lemma generic_error_Foreign: "generic_error err \<Longrightarrow> \<exists>text c. err = Foreign text c"
  by (cases err) simp_all

text \<open>
  C5. \<open>FromError(nil)\<close> is nil. For a generic error (no error of its chain is an
  \<open>*Error\<close> or carries a remote status) \<open>FromError\<close> returns an error that is not nil,
  with code 500, empty reason, the display text of the input as message, and a freshly
  generated identifier, which is not empty; the store is left as it was.
\<close>

theorem C5_FromError_nil_and_generic:
  "FromError rt h None = (None, h)
   \<and> (generic_error err \<longrightarrow>
        (\<exists>e. FromError rt h (Some err) = (Some e, h)
           \<and> Code (status e) = 500 \<and> Reason (status e) = []
           \<and> Message (status e) = Error_text h err
           \<and> ID (status e) = generateErrorID 2 rt \<and> ID (status e) \<noteq> []))"
proof (intro conjI impI)
  show "FromError rt h None = (None, h)" by (simp add: FromError_def)
next
  assume g: "generic_error err"
  obtain msg c where f: "err = Foreign msg c" using generic_error_Foreign [OF g] by blast
  have s: "status_FromError rt h err = (status_New codes_Unknown (Error_text h err), False)"
    using generic_error_no_status [OF g, of rt h] by (simp add: status_FromError_def f)
  have "FromError rt h (Some err)
        = (Some (Error \<lparr>Code = word_of_int UnknownCode, Reason = UnknownReason,
                         Message = Error_text h err, Metadata = None,
                         ID = generateErrorID 2 rt\<rparr> None), h)"
    by (simp add: FromError_def generic_error_no_Error [OF g] s)
  then show "\<exists>e. FromError rt h (Some err) = (Some e, h)
           \<and> Code (status e) = 500 \<and> Reason (status e) = []
           \<and> Message (status e) = Error_text h err
           \<and> ID (status e) = generateErrorID 2 rt \<and> ID (status e) \<noteq> []"
    by (simp add: UnknownCode_def UnknownReason_def generateErrorID_not_Nil)
qed

theorem C5_FromError_nil_and_generic_witness:
  "generic_error (Foreign ''wrapped: boom'' (Some (Foreign ''boom'' None)))
   \<and> (\<exists>e. FromError example_runtime example_store
             (Some (Foreign ''wrapped: boom'' (Some (Foreign ''boom'' None)))) = (Some e, example_store)
          \<and> Code (status e) = 500 \<and> Reason (status e) = [] \<and> Message (status e) = ''wrapped: boom''
          \<and> ID (status e) \<noteq> [])"
proof -
  have g: "generic_error (Foreign ''wrapped: boom'' (Some (Foreign ''boom'' None)))" by simp
  have t: "Error_text example_store (Foreign ''wrapped: boom'' (Some (Foreign ''boom'' None)))
           = ''wrapped: boom''" by simp
  from C5_FromError_nil_and_generic
         [of example_runtime example_store "Foreign ''wrapped: boom'' (Some (Foreign ''boom'' None))"] g
  obtain e where "FromError example_runtime example_store
             (Some (Foreign ''wrapped: boom'' (Some (Foreign ''boom'' None)))) = (Some e, example_store)"
    "Code (status e) = 500" "Reason (status e) = []"
    "Message (status e) = Error_text example_store (Foreign ''wrapped: boom'' (Some (Foreign ''boom'' None)))"
    "ID (status e) \<noteq> []"
    by blast
  then show ?thesis using g by (auto simp only: t)
qed

subsection \<open>Clone\<close>

lemma update_fresh: "k \<notin> fst ` set m \<Longrightarrow> AList.update k v m = m @ [(k, v)]"
  by (induction m) auto

lemma fold_update_distinct:
  "distinct (map fst es) \<Longrightarrow> fst ` set es \<inter> fst ` set m = {}
   \<Longrightarrow> fold (\<lambda>(k, v) m'. AList.update k v m') es m = m @ es"
proof (induction es arbitrary: m)
  case Nil
  show ?case by simp
next
  case (Cons x es)
  obtain k v where x: "x = (k, v)" by (cases x)
  have fresh: "k \<notin> fst ` set m" using Cons.prems(2) by (auto simp: x)
  have "fst ` set es \<inter> fst ` set (m @ [(k, v)]) = {}"
    using Cons.prems by (auto simp: x)
  moreover have "distinct (map fst es)" using Cons.prems(1) by simp
  ultimately have "fold (\<lambda>(k, v) m'. AList.update k v m') es (m @ [(k, v)]) = (m @ [(k, v)]) @ es"
    by (rule Cons.IH [rotated])
  then show ?case by (simp add: x update_fresh [OF fresh])
qed

lemma map_assign_last: "map_assign (h @ [m]) (length h) k v = h @ [AList.update k v m]"
  by (simp add: map_assign_def)

lemma copy_entries_last:
  "copy_entries (h @ [m]) es (length h) = h @ [fold (\<lambda>(k, v) m'. AList.update k v m') es m]"
  unfolding copy_entries_def
  by (induction es arbitrary: m) (auto simp: map_assign_last)

lemma map_entries_grow: "map_entries (h @ [m]) r = (if r = Some (length h) then m else map_entries h r)"
  by (auto simp: map_entries_def nth_append split: option.splits)

lemma Clone_Some:
  "Clone h (Some e)
   = (Some (Error \<lparr>Code = Code (status e), Reason = Reason (status e), Message = Message (status e),
                    Metadata = Some (length h), ID = ID (status e)\<rparr> (cause e)),
      h @ [fold (\<lambda>(k, v) m'. AList.update k v m') (map_entries h (Metadata (status e))) []])"
proof -
  have "map_entries (h @ [[]]) (Metadata (status e)) = map_entries h (Metadata (status e))"
    by (auto simp: map_entries_def nth_append split: option.splits)
  then show ?thesis by (simp add: Clone_def make_map_def copy_entries_last)
qed

lemma valid_ref_entries: "valid_ref h r \<Longrightarrow> distinct (map fst (map_entries h r))"
  by (auto simp: valid_ref_def map_entries_def split: option.splits)

lemma Clone_valid:
  assumes "valid_ref h (Metadata (status e))"
  shows "Clone h (Some e)
   = (Some (Error \<lparr>Code = Code (status e), Reason = Reason (status e), Message = Message (status e),
                    Metadata = Some (length h), ID = ID (status e)\<rparr> (cause e)),
      h @ [map_entries h (Metadata (status e))])"
  using fold_update_distinct [OF valid_ref_entries [OF assms], of "[]"]
  by (simp add: Clone_Some)

text \<open>
  C10. \<open>Clone(nil)\<close> is nil, and the store is left as it was. For an error whose
  metadata is a map of the store (or nil), \<open>Clone\<close> returns an error that is not nil, with
  the same fields and cause, whose metadata is a new map, not the one of the original,
  with the same entries; assigning to a key of the clone's map, or deleting one, leaves
  the entries of the original's map as they were.
\<close>

theorem C10_Clone_nil_and_distinct_map:
  "Clone h None = (None, h)
   \<and> (valid_ref h (Metadata (status e)) \<longrightarrow>
        (\<exists>c h' r. Clone h (Some e) = (Some c, h')
           \<and> Metadata (status c) = Some r \<and> Some r \<noteq> Metadata (status e) \<and> length h \<le> r
           \<and> map_entries h' (Some r) = map_entries h (Metadata (status e))
           \<and> map_entries h' (Metadata (status e)) = map_entries h (Metadata (status e))
           \<and> (\<forall>k v. map_entries (map_assign h' r k v) (Metadata (status e))
                      = map_entries h (Metadata (status e)))
           \<and> (\<forall>k. map_entries (map_delete h' (Some r) k) (Metadata (status e))
                    = map_entries h (Metadata (status e)))
           \<and> Code (status c) = Code (status e) \<and> Reason (status c) = Reason (status e)
           \<and> Message (status c) = Message (status e) \<and> ID (status c) = ID (status e)
           \<and> cause c = cause e))"
proof (intro conjI impI)
  show "Clone h None = (None, h)" by (simp add: Clone_def)
next
  assume v: "valid_ref h (Metadata (status e))"
  define c where "c = Error \<lparr>Code = Code (status e), Reason = Reason (status e),
      Message = Message (status e), Metadata = Some (length h), ID = ID (status e)\<rparr> (cause e)"
  define h' where "h' = h @ [map_entries h (Metadata (status e))]"
  have cl: "Clone h (Some e) = (Some c, h')"
    using Clone_valid [OF v] by (simp add: c_def h'_def)
  have ne: "Some (length h) \<noteq> Metadata (status e)"
    using v by (auto simp: valid_ref_def split: option.splits)
  have e1: "map_entries h' (Some (length h)) = map_entries h (Metadata (status e))"
    by (simp add: h'_def map_entries_grow)
  have e2: "map_entries h' (Metadata (status e)) = map_entries h (Metadata (status e))"
    using ne by (simp add: h'_def map_entries_grow)
  have e3: "map_entries (map_assign h' (length h) k v) (Metadata (status e))
              = map_entries h (Metadata (status e))" for k v
    using ne by (simp add: h'_def map_assign_last map_entries_grow)
  have e4: "map_entries (map_delete h' (Some (length h)) k) (Metadata (status e))
              = map_entries h (Metadata (status e))" for k
    using ne by (simp add: h'_def map_delete_def map_entries_grow)
  show "\<exists>c h' r. Clone h (Some e) = (Some c, h')
           \<and> Metadata (status c) = Some r \<and> Some r \<noteq> Metadata (status e) \<and> length h \<le> r
           \<and> map_entries h' (Some r) = map_entries h (Metadata (status e))
           \<and> map_entries h' (Metadata (status e)) = map_entries h (Metadata (status e))
           \<and> (\<forall>k v. map_entries (map_assign h' r k v) (Metadata (status e))
                      = map_entries h (Metadata (status e)))
           \<and> (\<forall>k. map_entries (map_delete h' (Some r) k) (Metadata (status e))
                    = map_entries h (Metadata (status e)))
           \<and> Code (status c) = Code (status e) \<and> Reason (status c) = Reason (status e)
           \<and> Message (status c) = Message (status e) \<and> ID (status c) = ID (status e)
           \<and> cause c = cause e"
    using cl ne e1 e2 e3 e4 by (intro exI [of _ c] exI [of _ h'] exI [of _ "length h"]) (simp add: c_def)
qed

theorem C10_Clone_nil_and_distinct_map_witness:
  "valid_ref example_store (Metadata (status example_error))
   \<and> Clone example_store (Some example_error)
       = (Some (Error ((status example_error)\<lparr>Metadata := Some 1\<rparr>) None),
          [[(''k'', ''v'')], [(''k'', ''v'')]])
   \<and> map_entries (map_assign [[(''k'', ''v'')], [(''k'', ''v'')]] 1 ''k'' ''changed'')
        (Metadata (status example_error)) = [(''k'', ''v'')]
   \<and> map_entries (map_assign [[(''k'', ''v'')], [(''k'', ''v'')]] 1 ''k'' ''changed'') (Some 1)
       = [(''k'', ''changed'')]"
proof -
  have v: "valid_ref example_store (Metadata (status example_error))" by code_simp
  have c: "Clone example_store (Some example_error)
       = (Some (Error ((status example_error)\<lparr>Metadata := Some 1\<rparr>) None),
          [[(''k'', ''v'')], [(''k'', ''v'')]])" by code_simp
  have m: "map_entries example_store (Metadata (status example_error)) = [(''k'', ''v'')]"
    by code_simp
  have a: "map_entries (map_assign [[(''k'', ''v'')], [(''k'', ''v'')]] 1 ''k'' ''changed'') (Some 1)
       = [(''k'', ''changed'')]" by code_simp
  from C10_Clone_nil_and_distinct_map [of example_store example_error] v
  obtain c' h' r where "Clone example_store (Some example_error) = (Some c', h')"
    "Metadata (status c') = Some r"
    "\<forall>k v. map_entries (map_assign h' r k v) (Metadata (status example_error))
            = map_entries example_store (Metadata (status example_error))"
    by blast
  then have "map_entries (map_assign [[(''k'', ''v'')], [(''k'', ''v'')]] 1 ''k'' ''changed'')
        (Metadata (status example_error)) = [(''k'', ''v'')]"
    using c m by auto
  then show ?thesis using v c a by simp
qed

subsection \<open>WithMetadata and the identifier\<close>

lemma WithMetadata_Some:
  "WithMetadata h (Some e) md
   = Some (Error \<lparr>Code = Code (status e), Reason = Reason (status e), Message = Message (status e),
                   Metadata = md, ID = ID (status e)\<rparr> (cause e),
           h @ [fold (\<lambda>(k, v) m'. AList.update k v m') (map_entries h (Metadata (status e))) []])"
  by (simp add: WithMetadata_def Clone_Some)

lemma WithMetadata_GetID:
  "ID (status e1) \<noteq> []
   \<Longrightarrow> \<exists>c h'. WithMetadata h (Some e1) md = Some (c, h') \<and> fst (GetID rt c) = ID (status e1)"
  by (simp add: WithMetadata_Some GetID_def)

lemma GetID_result: "ID (status (snd (GetID rt e))) = fst (GetID rt e) \<and> fst (GetID rt e) \<noteq> []"
  by (simp add: GetID_def Let_def ID_set_ID generateErrorID_not_Nil)

text \<open>
  C6, as stated: for every error and every map, \<open>GetID\<close> of the copy made by
  \<open>WithMetadata\<close> equals \<open>GetID\<close> of the original. For an original whose identifier is
  empty it does not: the copy has an empty identifier too, and each \<open>GetID\<close> generates
  its own, here at two readings of the clock.
\<close>

theorem C6_empty_id_counterexample:
  "WithMetadata example_store (Some example_error) None
     = Some (Error ((status example_error)\<lparr>Metadata := None\<rparr>) None,
             [[(''k'', ''v'')], [(''k'', ''v'')]])
   \<and> fst (GetID example_runtime (Error ((status example_error)\<lparr>Metadata := None\<rparr>) None))
       \<noteq> fst (GetID later_runtime example_error)"
  by code_simp

text \<open>
  C6, amended. \<open>WithMetadata\<close> on an error that is not nil returns a copy whose
  identifier field is that of the original and whose metadata is the given map (not
  merged with the old one). When the identifier of the original is not empty, \<open>GetID\<close>
  of the copy and \<open>GetID\<close> of the original both return it. When \<open>GetID\<close> has been called
  on the original before \<open>WithMetadata\<close>, \<open>GetID\<close> of the copy returns what that call
  returned.
\<close>

theorem C6_WithMetadata_keeps_id:
  "(\<exists>c h'. WithMetadata h (Some e) md = Some (c, h')
       \<and> ID (status c) = ID (status e) \<and> Metadata (status c) = md
       \<and> (ID (status e) \<noteq> [] \<longrightarrow>
            fst (GetID rt1 c) = ID (status e) \<and> fst (GetID rt2 e) = ID (status e)))
   \<and> (\<exists>c h'. WithMetadata h (Some (snd (GetID rt1 e))) md = Some (c, h')
         \<and> fst (GetID rt2 c) = fst (GetID rt1 e))"
proof (intro conjI)
  show "\<exists>c h'. WithMetadata h (Some e) md = Some (c, h')
       \<and> ID (status c) = ID (status e) \<and> Metadata (status c) = md
       \<and> (ID (status e) \<noteq> [] \<longrightarrow>
            fst (GetID rt1 c) = ID (status e) \<and> fst (GetID rt2 e) = ID (status e))"
    by (simp add: WithMetadata_Some GetID_def)
next
  have "ID (status (snd (GetID rt1 e))) \<noteq> []" using GetID_result [of rt1 e] by simp
  from WithMetadata_GetID [OF this, of h md rt2]
  show "\<exists>c h'. WithMetadata h (Some (snd (GetID rt1 e))) md = Some (c, h')
         \<and> fst (GetID rt2 c) = fst (GetID rt1 e)"
    using GetID_result [of rt1 e] by simp
qed

theorem C6_WithMetadata_keeps_id_witness:
  "ID (status (set_ID example_error ''custom-id'')) \<noteq> []
   \<and> (\<exists>c h'. WithMetadata example_store (Some (set_ID example_error ''custom-id'')) None = Some (c, h')
         \<and> Metadata (status c) = None
         \<and> fst (GetID example_runtime c) = ''custom-id''
         \<and> fst (GetID later_runtime (set_ID example_error ''custom-id'')) = ''custom-id'')"
proof -
  have a: "ID (status (set_ID example_error ''custom-id'')) \<noteq> []" by (simp add: ID_set_ID)
  have b: "ID (status (set_ID example_error ''custom-id'')) = ''custom-id''" by (simp add: ID_set_ID)
  from C6_WithMetadata_keeps_id
         [of example_store "set_ID example_error ''custom-id''" None example_runtime later_runtime] a
  obtain c h' where "WithMetadata example_store (Some (set_ID example_error ''custom-id'')) None = Some (c, h')"
    "Metadata (status c) = None"
    "fst (GetID example_runtime c) = ID (status (set_ID example_error ''custom-id''))"
    "fst (GetID later_runtime (set_ID example_error ''custom-id'')) = ID (status (set_ID example_error ''custom-id''))"
    by blast
  then show ?thesis using a by (auto simp only: b)
qed

section \<open>Properties of the remote conversion\<close>

lemma ascii_valid_utf8: "list_all (\<lambda>c. (of_char c :: int) < 128) s \<Longrightarrow> valid_utf8 s"
  by (induction s) (auto simp: Let_def)

lemma encodeStd_ascii: "\<forall>i\<in>set [0..<64]. (of_char (encodeStd ! i) :: int) < 128"
  by code_simp

lemma enc6_ascii: "(of_char (enc6 v) :: int) < 128"
proof -
  have "nat (v mod 64) \<in> set [0..<64]" by simp
  then show ?thesis using encodeStd_ascii unfolding enc6_def by blast
qed

lemma EncodeToString_ascii: "list_all (\<lambda>c. (of_char c :: int) < 128) (EncodeToString bs)"
  by (induction bs rule: EncodeToString.induct) (simp_all add: Let_def enc6_ascii)

lemma generateErrorID_valid_utf8: "valid_utf8 (generateErrorID skip rt)"
proof (cases "rt_probe_panics rt")
  case True
  then show ?thesis
    by (simp add: generateErrorID_panic generateFallbackErrorID_def ascii_valid_utf8 EncodeToString_ascii)
next
  case False
  then show ?thesis
    by (simp add: generateErrorID_no_panic ascii_valid_utf8 EncodeToString_ascii)
qed

lemma ToGRPCCode_OK_iff: "ToGRPCCode c = codes_OK \<longleftrightarrow> c = 200"
  by (simp add: ToGRPCCode_def http_defs codes_defs)

text \<open>What \<open>GRPCStatus\<close> returns for an error with the metadata \<open>{"k": "v"}\<close>.\<close>

lemma GRPCStatus_kv:
  assumes md: "map_entries h (Metadata (status e)) = [(''k'', ''v'')]"
    and code: "sint (Code (status e)) \<noteq> 200"
    and utf8: "valid_utf8 (Reason (status e))" "valid_utf8 (Message (status e))"
      "ID (status e) = [] \<or> valid_utf8 (ID (status e))"
    and i_def: "i = (if ID (status e) = [] then generateErrorID 3 rt else ID (status e))"
  shows "GRPCStatus rt h e
         = (Some \<lparr>rs_code = ToGRPCCode (sint (Code (status e))), rs_message = Message (status e),
                  rs_details = [PbStatus \<lparr>pb_Code = Code (status e), pb_Reason = Reason (status e),
                                           pb_Message = Message (status e),
                                           pb_Metadata = [(''k'', ''v''), (''error_id'', i)]\<rparr>]\<rparr>,
            if ID (status e) = [] then set_ID e (generateErrorID 3 rt) else e)"
proof -
  have nn: "Metadata (status e) \<noteq> None"
    using md by (auto simp: map_entries_def split: option.splits)
  have vi: "valid_utf8 i" using utf8(3) by (auto simp: i_def generateErrorID_valid_utf8)
  have ok: "ToGRPCCode (sint (Code (status e))) \<noteq> codes_OK" using code by (simp add: ToGRPCCode_OK_iff)
  have vk: "valid_utf8 ''k''" "valid_utf8 ''v''" "valid_utf8 ''error_id''" by simp_all
  show ?thesis
  proof (cases "ID (status e) = []")
    case True
    then have i: "i = generateErrorID 3 rt" by (simp add: i_def)
    show ?thesis
      using True nn ok utf8(1,2) vi vk
      by (simp add: GRPCStatus_def Let_def set_ID_def md WithDetails_def status_New_def
          anypb_New_def i del: valid_utf8.simps)
  next
    case False
    then have i: "i = ID (status e)" by (simp add: i_def)
    show ?thesis
      using False nn ok utf8(1,2) vi vk
      by (simp add: GRPCStatus_def Let_def md WithDetails_def status_New_def
          anypb_New_def i del: valid_utf8.simps)
  qed
qed

text \<open>What \<open>FromError\<close> makes of the error of such a status.\<close>

lemma FromError_kv:
  assumes "i \<noteq> []" "c \<noteq> codes_OK"
  shows "FromError rt h (status_Err (Some \<lparr>rs_code = c, rs_message = msg,
            rs_details = [PbStatus \<lparr>pb_Code = code, pb_Reason = reason, pb_Message = message,
                                     pb_Metadata = [(''k'', ''v''), (''error_id'', i)]\<rparr>]\<rparr>))
         = (Some (Error \<lparr>Code = code, Reason = reason, Message = message,
                          Metadata = Some (length h), ID = i\<rparr> None),
            h @ [[(''k'', ''v'')]])"
proof -
  let ?s = "\<lparr>rs_code = c, rs_message = msg,
            rs_details = [PbStatus \<lparr>pb_Code = code, pb_Reason = reason, pb_Message = message,
                                     pb_Metadata = [(''k'', ''v''), (''error_id'', i)]\<rparr>]\<rparr>"
  have err: "status_Err (Some ?s) = Some (GrpcErr ?s)" using assms(2) by (simp add: status_Err_def)
  have sf: "status_FromError rt h (GrpcErr ?s) = (?s, True)" by (simp add: status_FromError_def)
  have um: "unmarshal_Status h \<lparr>pb_Code = code, pb_Reason = reason, pb_Message = message,
                                     pb_Metadata = [(''k'', ''v''), (''error_id'', i)]\<rparr>
            = (\<lparr>pb_Code = code, pb_Reason = reason, pb_Message = message,
                 pb_Metadata = Some (length h)\<rparr>, h @ [[(''k'', ''v''), (''error_id'', i)]])"
    by (simp add: unmarshal_Status_def make_map_def copy_entries_last)
  have dt: "Details h (rs_details ?s)
            = ([StatusMsg \<lparr>pb_Code = code, pb_Reason = reason, pb_Message = message,
                            pb_Metadata = Some (length h)\<rparr>],
               h @ [[(''k'', ''v''), (''error_id'', i)]])"
    by (simp add: um)
  have ix: "map_index (h @ [[(''k'', ''v''), (''error_id'', i)]]) (Some (length h)) ''error_id'' = i"
    by (simp add: map_index_def map_entries_grow)
  have dl: "map_delete (h @ [[(''k'', ''v''), (''error_id'', i)]]) (Some (length h)) ''error_id''
            = h @ [[(''k'', ''v'')]]"
    by (simp add: map_delete_def)
  have ts: "take_status (h @ [[(''k'', ''v''), (''error_id'', i)]]) ret
              \<lparr>pb_Code = code, pb_Reason = reason, pb_Message = message, pb_Metadata = Some (length h)\<rparr>
            = (Error ((status ret)\<lparr>Code := code, Reason := reason, Message := message,
                                   Metadata := Some (length h), ID := i\<rparr>) (cause ret),
               h @ [[(''k'', ''v'')]])" for ret
    using assms(1) by (simp add: take_status_def ix dl)
  show ?thesis
    by (simp only: err FromError_def option.case errors_As.simps sf prod.case simp_thms if_False
        Let_def dt details_loop.simps message.case ts) simp
qed

text \<open>
  C1, as stated: for every error with the metadata \<open>{"k": "v"}\<close> the round trip through
  the remote status gives an error with that metadata and the same identifier. For an
  error with the code 200 it gives nil: the code translates to the RPC code OK, to which
  \<open>WithDetails\<close> attaches nothing, so \<open>GRPCStatus\<close> returns nil, whose error is nil.
\<close>

theorem C1_code_200_counterexample:
  "map_entries example_store (Metadata (status ok_coded_error)) = [(''k'', ''v'')]
   \<and> sint (Code (status ok_coded_error)) = 200
   \<and> fst (GRPCStatus example_runtime example_store ok_coded_error) = None
   \<and> FromError later_runtime example_store
        (status_Err (fst (GRPCStatus example_runtime example_store ok_coded_error)))
       = (None, example_store)"
  by code_simp

text \<open>The same happens when a string of the error cannot be packed into the detail.\<close>

lemma GRPCStatus_invalid_utf8_example:
  "fst (GRPCStatus example_runtime example_store bad_text_error) = None
   \<and> FromError later_runtime example_store
        (status_Err (fst (GRPCStatus example_runtime example_store bad_text_error)))
       = (None, example_store)"
  by code_simp

text \<open>
  C1, amended. For every error with the metadata \<open>{"k": "v"}\<close> whose code is not 200 and
  whose reason, message and identifier are valid UTF-8 (an empty identifier is generated
  first), \<open>FromError\<close> of the error of its \<open>GRPCStatus\<close> is an error with the same code,
  reason and message, whose metadata is a new map with the one entry \<open>"k": "v"\<close> and no
  \<open>error_id\<close> key, and whose identifier is the one \<open>GetID\<close> returns for the original.
\<close>

theorem C1_remote_roundtrip:
  assumes "map_entries h (Metadata (status e)) = [(''k'', ''v'')]"
    and "sint (Code (status e)) \<noteq> 200"
    and "valid_utf8 (Reason (status e))" "valid_utf8 (Message (status e))"
    and "ID (status e) = [] \<or> valid_utf8 (ID (status e))"
  shows "\<exists>r h'. FromError rt2 h (status_Err (fst (GRPCStatus rt1 h e))) = (Some r, h')
           \<and> map_entries h' (Metadata (status r)) = [(''k'', ''v'')]
           \<and> map_of (map_entries h' (Metadata (status r))) ''error_id'' = None
           \<and> ID (status r) = fst (GetID rt3 (snd (GRPCStatus rt1 h e)))
           \<and> (ID (status e) \<noteq> [] \<longrightarrow> ID (status r) = ID (status e))
           \<and> Code (status r) = Code (status e) \<and> Reason (status r) = Reason (status e)
           \<and> Message (status r) = Message (status e)"
proof -
  define i where "i = (if ID (status e) = [] then generateErrorID 3 rt1 else ID (status e))"
  define e' where "e' = (if ID (status e) = [] then set_ID e (generateErrorID 3 rt1) else e)"
  have g: "GRPCStatus rt1 h e
         = (Some \<lparr>rs_code = ToGRPCCode (sint (Code (status e))), rs_message = Message (status e),
                  rs_details = [PbStatus \<lparr>pb_Code = Code (status e), pb_Reason = Reason (status e),
                                           pb_Message = Message (status e),
                                           pb_Metadata = [(''k'', ''v''), (''error_id'', i)]\<rparr>]\<rparr>, e')"
    unfolding e'_def by (rule GRPCStatus_kv) (rule assms i_def)+
  have ine: "i \<noteq> []" by (simp add: i_def generateErrorID_not_Nil)
  have ok: "ToGRPCCode (sint (Code (status e))) \<noteq> codes_OK"
    using assms(2) by (simp add: ToGRPCCode_OK_iff)
  have ie: "ID (status e') = i" by (simp add: e'_def i_def ID_set_ID)
  have gid: "fst (GetID rt3 e') = i" using ine ie by (simp add: GetID_def)
  have f: "FromError rt2 h (status_Err (fst (GRPCStatus rt1 h e)))
         = (Some (Error \<lparr>Code = Code (status e), Reason = Reason (status e),
                          Message = Message (status e), Metadata = Some (length h), ID = i\<rparr> None),
            h @ [[(''k'', ''v'')]])"
    by (simp only: g fst_conv FromError_kv [OF ine ok])
  have s: "snd (GRPCStatus rt1 h e) = e'" by (simp add: g)
  show ?thesis
    unfolding f s gid by (simp add: map_entries_grow i_def)
qed

theorem C1_remote_roundtrip_witness:
  "map_entries example_store (Metadata (status example_error)) = [(''k'', ''v'')]
   \<and> sint (Code (status example_error)) \<noteq> 200
   \<and> valid_utf8 (Reason (status example_error)) \<and> valid_utf8 (Message (status example_error))
   \<and> ID (status example_error) = []
   \<and> (\<exists>r h'. FromError later_runtime example_store
                (status_Err (fst (GRPCStatus example_runtime example_store example_error))) = (Some r, h')
          \<and> map_entries h' (Metadata (status r)) = [(''k'', ''v'')]
          \<and> ID (status r) = fst (GetID later_runtime
                                   (snd (GRPCStatus example_runtime example_store example_error))))"
proof -
  have a: "map_entries example_store (Metadata (status example_error)) = [(''k'', ''v'')]"
    by code_simp
  have b: "sint (Code (status example_error)) \<noteq> 200" by (simp add: example_error_def)
  have c: "valid_utf8 (Reason (status example_error))" "valid_utf8 (Message (status example_error))"
    by code_simp+
  have d: "ID (status example_error) = []" by (simp add: example_error_def)
  then have d': "ID (status example_error) = [] \<or> valid_utf8 (ID (status example_error))" by simp
  from C1_remote_roundtrip [OF a b c d', of later_runtime example_runtime later_runtime]
  show ?thesis using a b c d by blast
qed


end
